theory Spec2Isabelle
  imports Main
begin

section \<open>Strings: the library functions the program calls\<close>

text \<open>
  Go strings are byte sequences; they are modelled as \<open>string\<close> (a list of 8-bit
  characters). \<open>strings.TrimSpace\<close>, \<open>strings.Fields\<close> and
  \<open>strings.ToLower\<close> are modelled on ASCII text: white space is tab, line feed,
  vertical tab, form feed, carriage return and space, and only the letters A to Z have
  a lower case.
\<close>

definition isSpace :: "char \<Rightarrow> bool" where
  "isSpace c = (c = CHR 0x09 \<or> c = CHR 0x0A \<or> c = CHR 0x0B \<or> c = CHR 0x0C
                \<or> c = CHR 0x0D \<or> c = CHR 0x20)"

definition TrimSpace :: "string \<Rightarrow> string" where
  "TrimSpace s = rev (dropWhile isSpace (rev (dropWhile isSpace s)))"

definition lowerChar :: "char \<Rightarrow> char" where
  "lowerChar c =
     (let n = (of_char c :: nat) in if 65 \<le> n \<and> n \<le> 90 then char_of (n + 32) else c)"

definition ToLower :: "string \<Rightarrow> string" where
  "ToLower s = map lowerChar s"

fun Join :: "string list \<Rightarrow> string \<Rightarrow> string" where
  "Join [] sep = []"
| "Join [x] sep = x"
| "Join (x # y # ys) sep = x @ sep @ Join (y # ys) sep"

text \<open>\<open>strings.Fields\<close>: the maximal runs of non-space characters, in order.
  The first argument is the token being read.\<close>

fun fieldsFrom :: "string \<Rightarrow> string \<Rightarrow> string list" where
  "fieldsFrom cur [] = (if cur = [] then [] else [cur])"
| "fieldsFrom cur (c # cs) =
     (if isSpace c then (if cur = [] then fieldsFrom [] cs else cur # fieldsFrom [] cs)
      else fieldsFrom (cur @ [c]) cs)"

definition Fields :: "string \<Rightarrow> string list" where
  "Fields s = fieldsFrom [] s"

fun HasPrefix :: "string \<Rightarrow> string \<Rightarrow> bool" where
  "HasPrefix s [] = True"
| "HasPrefix [] (p # ps) = False"
| "HasPrefix (c # cs) (p # ps) = (c = p \<and> HasPrefix cs ps)"

text \<open>\<open>strings.Contains s substr\<close>: \<open>substr\<close> starts at some position of \<open>s\<close>.\<close>

fun Contains :: "string \<Rightarrow> string \<Rightarrow> bool" where
  "Contains [] sub = (sub = [])"
| "Contains (c # cs) sub = (HasPrefix (c # cs) sub \<or> Contains cs sub)"

section \<open>Slices and integers\<close>

text \<open>
  Indices are Go \<open>int\<close>s. Reading a slice out of range panics: \<open>idx\<close> returns
  \<open>None\<close> there, and every function that indexes returns an option, \<open>None\<close>
  being the panic.
\<close>

definition len :: "'a list \<Rightarrow> int" where
  "len xs = int (length xs)"

definition idx :: "'a list \<Rightarrow> int \<Rightarrow> 'a option" where
  "idx xs i = (if 0 \<le> i \<and> i < len xs then Some (xs ! nat i) else None)"

text \<open>Subtraction on 64-bit \<open>int\<close> wraps around; it is written out where the operands
  come from outside (the terminal size). Cursor arithmetic is guarded by comparisons with
  slice lengths in the source and cannot overflow.\<close>

definition wrap64 :: "int \<Rightarrow> int" where
  "wrap64 x = (x + 2 ^ 63) mod 2 ^ 64 - 2 ^ 63"

definition subInt :: "int \<Rightarrow> int \<Rightarrow> int" where
  "subInt a b = wrap64 (a - b)"

section \<open>Messages, keys and commands of the event loop\<close>

text \<open>
  A key message has a type and, for typed text, its runes. \<open>keyString\<close> is the
  library's \<open>String()\<close> of a key: the runes themselves for typed text and a fixed name
  for every other key.
\<close>

datatype key =
    KeyRunes string
  | KeyEnter | KeyEsc | KeyCtrlC
  | KeyUp | KeyDown | KeyLeft | KeyRight
  | KeyPgUp | KeyPgDown
  | KeyBackspace | KeyTab

fun keyString :: "key \<Rightarrow> string" where
  "keyString (KeyRunes s) = s"
| "keyString KeyEnter = ''enter''"
| "keyString KeyEsc = ''esc''"
| "keyString KeyCtrlC = ''ctrl+c''"
| "keyString KeyUp = ''up''"
| "keyString KeyDown = ''down''"
| "keyString KeyLeft = ''left''"
| "keyString KeyRight = ''right''"
| "keyString KeyPgUp = ''pgup''"
| "keyString KeyPgDown = ''pgdown''"
| "keyString KeyBackspace = ''backspace''"
| "keyString KeyTab = ''tab''"

text \<open>The \<open>error\<close> carried by a finished run: \<open>None\<close> is Go's \<open>nil\<close>.\<close>

datatype run_error = DeadlineExceeded | ExitError | NotFound

text \<open>
  The messages of both programs. \<open>RunFinishedMsg\<close> is \<open>runFinishedMsg\<close> (called
  \<open>runResultMsg\<close> in main.go): command text, output, error.
\<close>

datatype msg =
    WindowSizeMsg int int
  | KeyMsg key
  | TickMsg
  | RunStartedMsg string
  | RunFinishedMsg string string "run_error option"
  | OtherMsg

text \<open>
  The commands an update returns. \<open>CmdRun parts\<close> is the value of
  \<open>runCommandCmd(parts)\<close> for a non-empty \<open>parts\<close>: the sequence of the function
  that reports the start and the function that runs the child process. It is the only
  command that invokes the process runner.
\<close>

datatype cmd =
    CmdNone
  | CmdQuit
  | CmdBlink
  | CmdTick
  | CmdInput
  | CmdViewport
  | CmdRun "string list"

definition runCommandCmd :: "string list \<Rightarrow> cmd" where
  "runCommandCmd parts = (if len parts = 0 then CmdNone else CmdRun parts)"

section \<open>The widgets of the library\<close>

record textinput =
  tiValue :: string
  Placeholder :: string
  Prompt :: string
  CharLimit :: int
  tiWidth :: int
  focus :: bool

record viewport =
  Width :: int
  Height :: int
  content :: string
  YOffset :: int

datatype scroll_op = OpSetContent | OpHalfViewUp | OpHalfViewDown | OpUpdate msg

text \<open>
  What the widgets do with a key is library code. It is a parameter of the model:
  \<open>libEdit k ti\<close> is the text of input \<open>ti\<close> after key \<open>k\<close>, and
  \<open>libScroll op vp\<close> is the scroll offset of viewport \<open>vp\<close> after operation
  \<open>op\<close>. Every theorem with a variable library holds whatever the widgets do.
\<close>

record library =
  libEdit :: "key \<Rightarrow> textinput \<Rightarrow> string"
  libScroll :: "scroll_op \<Rightarrow> viewport \<Rightarrow> int"

definition textinput_New :: textinput where
  "textinput_New = \<lparr>tiValue = [], Placeholder = [], Prompt = ''> '', CharLimit = 0,
                     tiWidth = 0, focus = False\<rparr>"

definition Value :: "textinput \<Rightarrow> string" where
  "Value ti = tiValue ti"

definition SetValue :: "string \<Rightarrow> textinput \<Rightarrow> textinput" where
  "SetValue s ti =
     ti\<lparr>tiValue := (if 0 < CharLimit ti \<and> CharLimit ti < len s
                     then take (nat (CharLimit ti)) s else s)\<rparr>"

definition Focus :: "textinput \<Rightarrow> textinput" where
  "Focus ti = ti\<lparr>focus := True\<rparr>"

definition Blur :: "textinput \<Rightarrow> textinput" where
  "Blur ti = ti\<lparr>focus := False\<rparr>"

definition textinput_Update :: "library \<Rightarrow> key \<Rightarrow> textinput \<Rightarrow> textinput" where
  "textinput_Update L k ti = ti\<lparr>tiValue := libEdit L k ti\<rparr>"

definition viewport_New :: "int \<Rightarrow> int \<Rightarrow> viewport" where
  "viewport_New w h = \<lparr>Width = w, Height = h, content = [], YOffset = 0\<rparr>"

definition SetContent :: "library \<Rightarrow> string \<Rightarrow> viewport \<Rightarrow> viewport" where
  "SetContent L s vp =
     (let vp1 = vp\<lparr>content := s\<rparr> in vp1\<lparr>YOffset := libScroll L OpSetContent vp1\<rparr>)"

definition GotoTop :: "viewport \<Rightarrow> viewport" where
  "GotoTop vp = vp\<lparr>YOffset := 0\<rparr>"

definition HalfViewUp :: "library \<Rightarrow> viewport \<Rightarrow> viewport" where
  "HalfViewUp L vp = vp\<lparr>YOffset := libScroll L OpHalfViewUp vp\<rparr>"

definition HalfViewDown :: "library \<Rightarrow> viewport \<Rightarrow> viewport" where
  "HalfViewDown L vp = vp\<lparr>YOffset := libScroll L OpHalfViewDown vp\<rparr>"

definition viewport_Update :: "library \<Rightarrow> msg \<Rightarrow> viewport \<Rightarrow> viewport" where
  "viewport_Update L m vp = vp\<lparr>YOffset := libScroll L (OpUpdate m) vp\<rparr>"

text \<open>A library for running the model: typed runes are appended to the text, backspace
  removes the last character, and the viewport stays at the top.\<close>

definition typingLib :: library where
  "typingLib =
     \<lparr>libEdit = (\<lambda>k ti. case k of KeyRunes s \<Rightarrow> tiValue ti @ s
                              | KeyBackspace \<Rightarrow> butlast (tiValue ti)
                              | _ \<Rightarrow> tiValue ti),
      libScroll = (\<lambda>op vp. 0)\<rparr>"

section \<open>The program with categories\<close>

text \<open>The source file with the category pane (\<open>commandItem\<close>, \<open>commandCategory\<close>,
  filter mode, command mode and form mode).\<close>

record commandItem =
  name :: string
  description :: string
  baseArgs :: "string list"
  required :: "string list"
  optional :: string
  example :: string

record commandCategory =
  catName :: string
  commands :: "commandItem list"

text \<open>The model. \<open>formCmd\<close> is a pointer: \<open>None\<close> is \<open>nil\<close>. The styles and the
  frame of the spinner only matter to rendering and are left out.\<close>

record model =
  width :: int
  height :: int
  ready :: bool
  devtunnelFound :: bool
  running :: bool
  statusText :: string
  statusErr :: bool
  categories :: "commandCategory list"
  catIdx :: int
  cmdIdx :: int
  focusPane :: int
  viewport :: viewport
  filterMode :: bool
  filterInput :: textinput
  cmdMode :: bool
  cmdInput :: textinput
  formMode :: bool
  formTitle :: string
  formCmd :: "commandItem option"
  formLabels :: "string list"
  formInputs :: "textinput list"
  formIndex :: int
  lastCmd :: "string list"
  lastOutput :: string

definition item :: "string \<Rightarrow> string \<Rightarrow> string list \<Rightarrow> string list \<Rightarrow> string \<Rightarrow> string
                    \<Rightarrow> commandItem" where
  "item n d b r opt ex =
     \<lparr>name = n, description = d, baseArgs = b, required = r, optional = opt, example = ex\<rparr>"

definition catalog :: "commandCategory list" where
  "catalog =
    [\<lparr>catName = ''Tunnels'', commands =
       [item ''list'' ''List tunnels'' [''list''] [] ''flags'' ''list --all'',
        item ''show'' ''Show tunnel details'' [''show''] [''tunnel-id''] [] [],
        item ''create'' ''Create a tunnel'' [''create''] [''tunnel-id''] ''flags'' [],
        item ''update'' ''Update tunnel properties'' [''update''] [''tunnel-id''] ''flags'' [],
        item ''delete'' ''Delete a tunnel'' [''delete''] [''tunnel-id''] [] [],
        item ''delete-all'' ''Delete all tunnels'' [''delete-all''] [] [] [],
        item ''set'' ''Set default tunnel'' [''set''] [''tunnel-id''] [] [],
        item ''unset'' ''Clear default tunnel'' [''unset''] [] [] [],
        item ''token'' ''Issue tunnel access token'' [''token''] [''tunnel-id''] ''flags'' []]\<rparr>,
     \<lparr>catName = ''Ports & Access'', commands =
       [item ''port'' ''Manage tunnel ports'' [''port''] [] ''subcommand and args''
          ''port list <tunnel-id>'',
        item ''access'' ''Manage access control'' [''access''] [] ''subcommand and args''
          ''access list <tunnel-id>'']\<rparr>,
     \<lparr>catName = ''Connections'', commands =
       [item ''host'' ''Host a tunnel'' [''host''] [] ''tunnel-id and flags'' [],
        item ''connect'' ''Connect to tunnel'' [''connect''] [''tunnel-id''] ''flags'' []]\<rparr>,
     \<lparr>catName = ''User'', commands =
       [item ''user login'' ''Authenticate user credentials'' [''user'', ''login''] [] [] [],
        item ''user logout'' ''Remove local credentials'' [''user'', ''logout''] [] [] [],
        item ''user'' ''Run user subcommand'' [''user''] [] ''subcommand and args''
          ''user show'']\<rparr>,
     \<lparr>catName = ''Diagnostics'', commands =
       [item ''limits'' ''List user limits'' [''limits''] [] [] [],
        item ''clusters'' ''List clusters'' [''clusters''] [] [] [],
        item ''echo'' ''Run echo server'' [''echo''] [''protocol''] [] [],
        item ''ping'' ''Ping remote echo server'' [''ping''] [''uri''] [] []]\<rparr>,
     \<lparr>catName = ''Custom'', commands =
       [item '': command mode'' ''Type any raw devtunnel command'' [] [] [] []]\<rparr>]"

definition initialModel :: model where
  "initialModel =
     \<lparr>width = 0, height = 0, ready = False, devtunnelFound = False, running = False,
      statusText = ''checking devtunnel binary'', statusErr = False,
      categories = catalog, catIdx = 0, cmdIdx = 0, focusPane = 1,
      viewport = viewport_New 0 0,
      filterMode = False,
      filterInput = textinput_New\<lparr>Placeholder := ''filter commands'', CharLimit := 120,
                                   Prompt := ''/ '', tiWidth := 40\<rparr>,
      cmdMode = False,
      cmdInput = textinput_New\<lparr>Placeholder := ''type command after '' @ [CHR 0x27]
                                                 @ ''devtunnel'' @ [CHR 0x27],
                                CharLimit := 500, Prompt := '': '', tiWidth := 70\<rparr>,
      formMode = False, formTitle = [], formCmd = None, formLabels = [], formInputs = [],
      formIndex = 0, lastCmd = [], lastOutput = []\<rparr>"

text \<open>\<open>checkBinaryCmd\<close>: the one message of the startup probe; the argument is whether
  \<open>exec.LookPath\<close> found the tool.\<close>

definition checkBinaryCmd :: "bool \<Rightarrow> msg" where
  "checkBinaryCmd found =
     (if \<not> found then RunFinishedMsg ''which devtunnel'' ''devtunnel not found in PATH''
                         (Some NotFound)
      else RunFinishedMsg ''which devtunnel'' ''devtunnel detected'' None)"

text \<open>The loop of \<open>visibleCommands\<close>; \<open>out\<close> is the slice built so far.\<close>

fun visibleLoop :: "string \<Rightarrow> commandItem list \<Rightarrow> commandItem list \<Rightarrow> commandItem list" where
  "visibleLoop flt [] out = out"
| "visibleLoop flt (it # items) out =
     (let hay = ToLower (name it @ '' '' @ description it @ '' '' @ Join (baseArgs it) '' '')
      in visibleLoop flt items (if Contains hay flt then out @ [it] else out))"

definition visibleCommands :: "model \<Rightarrow> commandItem list" where
  "visibleCommands m =
     (if catIdx m < 0 \<or> catIdx m \<ge> len (categories m) then []
      else let items = commands (categories m ! nat (catIdx m));
               flt = TrimSpace (ToLower (Value (filterInput m)))
           in if flt = [] then items else visibleLoop flt items [])"

text \<open>
  \<open>moveUp\<close> and \<open>moveDown\<close> are declared with a value receiver
  (\<open>func (m model) moveUp()\<close>): the body works on a copy of the model. The functions
  below give that copy after the body; the caller keeps its own model.
\<close>

definition moveUp :: "model \<Rightarrow> model" where
  "moveUp m = (if cmdIdx m > 0 then m\<lparr>cmdIdx := cmdIdx m - 1\<rparr> else m)"

definition moveDown :: "model \<Rightarrow> model" where
  "moveDown m =
     (let cmds = visibleCommands m
      in if cmdIdx m < len cmds - 1 then m\<lparr>cmdIdx := cmdIdx m + 1\<rparr> else m)"

definition newFormInput :: "string \<Rightarrow> textinput" where
  "newFormInput label =
     textinput_New\<lparr>Prompt := ''> '', Placeholder := label, tiWidth := 60, CharLimit := 300\<rparr>"

definition runSelected :: "model \<Rightarrow> (model \<times> cmd) option" where
  "runSelected m =
     (if \<not> devtunnelFound m
      then Some (m\<lparr>statusErr := True, statusText := ''install devtunnel CLI first''\<rparr>, CmdNone)
      else let cmds = visibleCommands m in
        if len cmds = 0 then Some (m, CmdNone)
        else let m1 = (if cmdIdx m \<ge> len cmds then m\<lparr>cmdIdx := len cmds - 1\<rparr> else m) in
          case idx cmds (cmdIdx m1) of
            None \<Rightarrow> None
          | Some c \<Rightarrow>
              if name c = '': command mode''
              then Some (m1\<lparr>cmdMode := True, cmdInput := Focus (SetValue [] (cmdInput m1))\<rparr>,
                         CmdBlink)
              else let labels = required c @ (if optional c \<noteq> [] then [optional c] else []) in
                if len labels = 0
                then let parts = ''devtunnel'' # baseArgs c
                     in Some (m1\<lparr>lastCmd := parts\<rparr>, runCommandCmd parts)
                else let inputs = map newFormInput labels
                     in Some (m1\<lparr>formMode := True, formCmd := Some c, formTitle := name c,
                                  formLabels := labels,
                                  formInputs := inputs[0 := Focus (inputs ! 0)],
                                  formIndex := 0\<rparr>, CmdBlink))"

text \<open>The loop of \<open>updateForm\<close> over the required fields, from field \<open>i\<close> on:
  \<open>labels\<close> are the labels \<open>required[i], required[i+1], ...\<close> still to visit and
  \<open>parts\<close> is the vector built so far.\<close>

datatype scan = Panic | Missing string | Collected "string list"

fun requiredLoop :: "textinput list \<Rightarrow> int \<Rightarrow> string list \<Rightarrow> string list \<Rightarrow> scan" where
  "requiredLoop inputs i [] parts = Collected parts"
| "requiredLoop inputs i (label # labels) parts =
     (case idx inputs i of
        None \<Rightarrow> Panic
      | Some ti \<Rightarrow>
          let v = TrimSpace (Value ti)
          in if v = [] then Missing label else requiredLoop inputs (i + 1) labels (parts @ [v]))"

definition updateForm :: "library \<Rightarrow> model \<Rightarrow> key \<Rightarrow> (model \<times> cmd) option" where
  "updateForm L m k =
     (if keyString k = ''esc''
      then Some (m\<lparr>formMode := False, formCmd := None, formInputs := [], formLabels := [],
                   formTitle := [], formIndex := 0\<rparr>, CmdNone)
      else if keyString k = ''enter''
      then (if formIndex m < len (formInputs m) - 1
            then (case idx (formInputs m) (formIndex m) of
                    None \<Rightarrow> None
                  | Some cur \<Rightarrow>
                      let inputs1 = (formInputs m)[nat (formIndex m) := Blur cur];
                          i1 = formIndex m + 1
                      in (case idx inputs1 i1 of
                            None \<Rightarrow> None
                          | Some nxt \<Rightarrow>
                              Some (m\<lparr>formInputs := inputs1[nat i1 := Focus nxt],
                                      formIndex := i1\<rparr>, CmdNone)))
            else (case formCmd m of
                    None \<Rightarrow> Some (m\<lparr>formMode := False\<rparr>, CmdNone)
                  | Some fc \<Rightarrow>
                     (case requiredLoop (formInputs m) 0 (required fc)
                             (''devtunnel'' # baseArgs fc) of
                        Panic \<Rightarrow> None
                      | Missing label \<Rightarrow>
                          Some (m\<lparr>statusErr := True,
                                  statusText := ''missing required: '' @ label,
                                  formMode := False, formCmd := None\<rparr>, CmdNone)
                      | Collected parts \<Rightarrow>
                          let i = len (formInputs m) - 1;
                              parts2 =
                                (if optional fc \<noteq> [] \<and> i \<ge> 0
                                 then let extra = TrimSpace (Value (formInputs m ! nat i))
                                      in if extra \<noteq> [] then parts @ Fields extra else parts
                                 else parts)
                          in Some (m\<lparr>formMode := False, formCmd := None, formInputs := [],
                                     formLabels := [], formTitle := [], formIndex := 0,
                                     lastCmd := parts2\<rparr>, runCommandCmd parts2))))
      else (case idx (formInputs m) (formIndex m) of
              None \<Rightarrow> None
            | Some cur \<Rightarrow>
                Some (m\<lparr>formInputs := (formInputs m)[nat (formIndex m) :=
                                          textinput_Update L k cur]\<rparr>, CmdInput)))"

definition updateCmdMode :: "library \<Rightarrow> model \<Rightarrow> key \<Rightarrow> model \<times> cmd" where
  "updateCmdMode L m k =
     (if keyString k = ''esc''
      then (m\<lparr>cmdMode := False, cmdInput := Blur (cmdInput m)\<rparr>, CmdNone)
      else if keyString k = ''enter''
      then let raw = TrimSpace (Value (cmdInput m));
               m1 = m\<lparr>cmdMode := False, cmdInput := Blur (cmdInput m)\<rparr>
           in if raw = [] then (m1, CmdNone)
              else let parts = ''devtunnel'' # Fields raw
                   in (m1\<lparr>lastCmd := parts\<rparr>, runCommandCmd parts)
      else (m\<lparr>cmdInput := textinput_Update L k (cmdInput m)\<rparr>, CmdInput))"

definition updateFilterMode :: "library \<Rightarrow> model \<Rightarrow> key \<Rightarrow> model \<times> cmd" where
  "updateFilterMode L m k =
     (if keyString k = ''esc''
      then (m\<lparr>filterMode := False, filterInput := Blur (filterInput m)\<rparr>, CmdNone)
      else if keyString k = ''enter''
      then (m\<lparr>filterMode := False, filterInput := Blur (filterInput m), cmdIdx := 0\<rparr>, CmdNone)
      else (m\<lparr>filterInput := textinput_Update L k (filterInput m), cmdIdx := 0\<rparr>, CmdInput))"

text \<open>The key switch of \<open>Update\<close> outside form, command and filter mode; the cases are
  tried in the order of the source.\<close>

definition updateNormal :: "library \<Rightarrow> model \<Rightarrow> key \<Rightarrow> (model \<times> cmd) option" where
  "updateNormal L m k =
     (let s = keyString k in
      if k = KeyCtrlC \<or> s = ''q'' then Some (m, CmdQuit)
      else if k = KeyLeft \<or> s = ''h''
      then Some (if catIdx m > 0 then m\<lparr>catIdx := catIdx m - 1, cmdIdx := 0\<rparr> else m, CmdNone)
      else if k = KeyRight \<or> s = ''l''
      then Some (if catIdx m < len (categories m) - 1
                 then m\<lparr>catIdx := catIdx m + 1, cmdIdx := 0\<rparr> else m, CmdNone)
      else if s = '':''
      then Some (m\<lparr>cmdMode := True, cmdInput := Focus (SetValue [] (cmdInput m))\<rparr>, CmdBlink)
      else if s = ''/''
      then Some (m\<lparr>filterMode := True, focusPane := 1, filterInput := Focus (filterInput m)\<rparr>,
                 CmdBlink)
      else if s = ''r''
      then (if len (lastCmd m) > 0 then Some (m, runCommandCmd (lastCmd m))
            else Some (m, CmdNone))
      else if s = ''g'' then Some (m\<lparr>cmdIdx := 0\<rparr>, CmdNone)
      else if s = ''G''
      then (let cmds = visibleCommands m
            in Some (if len cmds > 0 then m\<lparr>cmdIdx := len cmds - 1\<rparr> else m, CmdNone))
      else if s = ''1'' \<or> s = ''2'' \<or> s = ''3'' \<or> s = ''4'' \<or> s = ''5'' \<or> s = ''6''
      then (let i = int (of_char (hd s)) - int (of_char (CHR ''1''))
            in Some (if i \<ge> 0 \<and> i < len (categories m)
                     then m\<lparr>catIdx := i, cmdIdx := 0, focusPane := 1\<rparr> else m, CmdNone))
      else if k = KeyUp \<or> s = ''k'' then (let copy = moveUp m in Some (m, CmdNone))
      else if k = KeyDown \<or> s = ''j'' then (let copy = moveDown m in Some (m, CmdNone))
      else if k = KeyPgUp then Some (m\<lparr>viewport := HalfViewUp L (viewport m)\<rparr>, CmdNone)
      else if k = KeyPgDown then Some (m\<lparr>viewport := HalfViewDown L (viewport m)\<rparr>, CmdNone)
      else if s = ''u'' then Some (m\<lparr>viewport := HalfViewUp L (viewport m)\<rparr>, CmdNone)
      else if s = ''d'' then Some (m\<lparr>viewport := HalfViewDown L (viewport m)\<rparr>, CmdNone)
      else if k = KeyEnter then runSelected m
      else Some (m, CmdNone))"

definition Update :: "library \<Rightarrow> model \<Rightarrow> msg \<Rightarrow> (model \<times> cmd) option" where
  "Update L m ms =
     (case ms of
        WindowSizeMsg w h \<Rightarrow>
          (let m1 = m\<lparr>width := w, height := h\<rparr> in
           if \<not> ready m1
           then Some (m1\<lparr>viewport := SetContent L ''Output will appear here''
                                         (viewport_New (max 20 (subInt w 64))
                                                       (max 8 (subInt h 10))),
                          ready := True\<rparr>, CmdNone)
           else Some (m1\<lparr>viewport := (viewport m1)\<lparr>Width := max 20 (subInt w 64),
                                                     Height := max 8 (subInt h 10)\<rparr>\<rparr>, CmdNone))
      | TickMsg \<Rightarrow> (if running m then Some (m, CmdTick) else Some (m, CmdNone))
      | RunStartedMsg cmdText \<Rightarrow>
          Some (m\<lparr>running := True, statusErr := False, statusText := ''running '' @ cmdText,
                  viewport := GotoTop (SetContent L
                     (''$ '' @ cmdText @ [CHR 0x0A, CHR 0x0A] @ ''Running...'') (viewport m))\<rparr>,
                CmdTick)
      | RunFinishedMsg cmdText out err \<Rightarrow>
          (if cmdText = ''which devtunnel''
           then (if err \<noteq> None
                 then Some (m\<lparr>devtunnelFound := False, statusErr := True,
                              statusText := ''devtunnel not found in PATH''\<rparr>, CmdNone)
                 else Some (m\<lparr>devtunnelFound := True, statusErr := False,
                              statusText := ''ready''\<rparr>, CmdNone))
           else let m1 = m\<lparr>running := False, lastOutput := out\<rparr>;
                    m2 = (if err \<noteq> None
                          then m1\<lparr>statusErr := True, statusText := ''command failed''\<rparr>
                          else m1\<lparr>statusErr := False, statusText := ''command completed''\<rparr>)
                in Some (m2\<lparr>viewport := GotoTop (SetContent L
                            (''$ '' @ cmdText @ [CHR 0x0A, CHR 0x0A] @ out) (viewport m2))\<rparr>,
                         CmdNone))
      | KeyMsg k \<Rightarrow>
          (if formMode m then updateForm L m k
           else if cmdMode m then Some (updateCmdMode L m k)
           else if filterMode m then Some (updateFilterMode L m k)
           else updateNormal L m k)
      | OtherMsg \<Rightarrow> Some (m, CmdNone))"

text \<open>Running the event loop over a list of messages: the final model and the commands
  returned, in order; \<open>None\<close> if an update panics.\<close>

fun steps :: "library \<Rightarrow> model \<Rightarrow> msg list \<Rightarrow> (model \<times> cmd list) option" where
  "steps L m [] = Some (m, [])"
| "steps L m (x # xs) =
     (case Update L m x of
        None \<Rightarrow> None
      | Some (m1, c) \<Rightarrow>
          (case steps L m1 xs of None \<Rightarrow> None | Some (m2, cs) \<Rightarrow> Some (m2, c # cs)))"

section \<open>The program with one command list (main.go)\<close>

text \<open>Names that the two source files share carry the suffix \<open>_main\<close> here.\<close>

record commandSpec =
  label :: string
  description_main :: string
  baseArgs_main :: "string list"
  requiredArgs :: "string list"
  optionalArg :: string

record model_main =
  width_main :: int
  height_main :: int
  ready_main :: bool
  devtunnelFound_main :: bool
  selected :: int
  commands_main :: "commandSpec list"
  viewport_main :: viewport
  status :: string
  running_main :: bool
  showHelp :: bool
  lastCommand :: "string list"
  lastCommandText :: string
  lastOutput_main :: string
  inPrompt :: bool
  promptIndex :: int
  activeCommand :: "commandSpec option"
  promptInputs :: "textinput list"
  promptValues :: "string list"
  currentPrompt :: string
  customCmdInput :: textinput

definition spec :: "string \<Rightarrow> string \<Rightarrow> string list \<Rightarrow> string list \<Rightarrow> string \<Rightarrow> commandSpec" where
  "spec l d b r opt =
     \<lparr>label = l, description_main = d, baseArgs_main = b, requiredArgs = r, optionalArg = opt\<rparr>"

definition defaultCommands :: "commandSpec list" where
  "defaultCommands =
    [spec ''user login'' ''Authenticate user credentials'' [''user'', ''login''] [] [],
     spec ''user logout'' ''Remove local credentials'' [''user'', ''logout''] [] [],
     spec ''list'' ''List tunnels'' [''list''] [] ''optional args (example: --all)'',
     spec ''show'' ''Show tunnel details'' [''show''] [''tunnel-id''] ''optional args'',
     spec ''create'' ''Create a tunnel'' [''create''] [''tunnel-id''] ''optional args'',
     spec ''update'' ''Update tunnel properties'' [''update''] [''tunnel-id''] ''optional args'',
     spec ''delete'' ''Delete one tunnel'' [''delete''] [''tunnel-id''] ''optional args'',
     spec ''delete-all'' ''Delete all tunnels'' [''delete-all''] [] ''optional args'',
     spec ''token'' ''Issue tunnel access token'' [''token''] [''tunnel-id''] ''optional args'',
     spec ''set'' ''Set default tunnel'' [''set''] [''tunnel-id''] ''optional args'',
     spec ''unset'' ''Clear default tunnel'' [''unset''] [] ''optional args'',
     spec ''access'' ''Manage tunnel access control entries'' [''access''] []
       ''subcommand and args'',
     spec ''port'' ''Manage tunnel ports'' [''port''] [] ''subcommand and args'',
     spec ''host'' ''Host a tunnel'' [''host''] [] ''tunnel-id and args (blank = auto-create)'',
     spec ''connect'' ''Connect to tunnel'' [''connect''] [''tunnel-id''] ''optional args'',
     spec ''limits'' ''List user limits'' [''limits''] [] ''optional args'',
     spec ''clusters'' ''List service clusters'' [''clusters''] [] ''optional args'',
     spec ''echo'' ''Run diagnostic echo server'' [''echo''] [''protocol''] ''optional args'',
     spec ''ping'' ''Send messages to echo server'' [''ping''] [''uri''] ''optional args'',
     spec ''custom'' ''Run any raw command after devtunnel'' [] [] []]"

definition initialModel_main :: model_main where
  "initialModel_main =
     \<lparr>width_main = 0, height_main = 0, ready_main = False, devtunnelFound_main = False,
      selected = 0, commands_main = defaultCommands, viewport_main = viewport_New 0 0,
      status = ''checking devtunnel binary'', running_main = False, showHelp = False,
      lastCommand = [], lastCommandText = [], lastOutput_main = [],
      inPrompt = False, promptIndex = 0, activeCommand = None, promptInputs = [],
      promptValues = [], currentPrompt = [],
      customCmdInput = textinput_New\<lparr>Placeholder := ''example: user show --verbose'',
                                      Prompt := ''> '', CharLimit := 400, tiWidth := 60\<rparr>\<rparr>"

definition checkBinaryCmd_main :: "bool \<Rightarrow> msg" where
  "checkBinaryCmd_main found =
     (if \<not> found then RunFinishedMsg ''which devtunnel'' ''devtunnel was not found in PATH''
                         (Some NotFound)
      else RunFinishedMsg ''which devtunnel'' ''devtunnel found and ready'' None)"

definition newPromptInput :: "string \<Rightarrow> textinput" where
  "newPromptInput l =
     textinput_New\<lparr>Prompt := ''> '', Placeholder := l, CharLimit := 300, tiWidth := 60\<rparr>"

definition startPrompt :: "model_main \<Rightarrow> commandSpec \<Rightarrow> (model_main \<times> cmd) option" where
  "startPrompt m c =
     (if \<not> devtunnelFound_main m
      then Some (m\<lparr>status := ''install devtunnel CLI first''\<rparr>, CmdNone)
      else if label c = ''custom''
      then Some (m\<lparr>inPrompt := True, activeCommand := Some c,
                   currentPrompt := ''Custom command (after `devtunnel`)'',
                   customCmdInput := Focus (SetValue [] (customCmdInput m))\<rparr>, CmdBlink)
      else let fields = requiredArgs c @ (if optionalArg c \<noteq> [] then [optionalArg c] else []) in
        if len fields = 0
        then let parts = ''devtunnel'' # baseArgs_main c
             in Some (m\<lparr>lastCommand := parts\<rparr>, runCommandCmd parts)
        else let inputs = map newPromptInput fields
             in Some (m\<lparr>promptInputs := inputs[0 := Focus (inputs ! 0)],
                        promptValues := replicate (length fields) [],
                        inPrompt := True, promptIndex := 0, activeCommand := Some c,
                        currentPrompt := fields ! 0\<rparr>, CmdBlink))"

text \<open>The loop of \<open>handlePromptInput\<close> over the required labels, from index \<open>i\<close> on;
  it reads the stored \<open>promptValues\<close>.\<close>

fun promptLoop :: "string list \<Rightarrow> int \<Rightarrow> string list \<Rightarrow> string list \<Rightarrow> scan" where
  "promptLoop vals i [] args = Collected args"
| "promptLoop vals i (l # ls) args =
     (case idx vals i of
        None \<Rightarrow> Panic
      | Some pv \<Rightarrow>
          let v = TrimSpace pv
          in if v = [] then Missing l else promptLoop vals (i + 1) ls (args @ [v]))"

definition handlePromptInput :: "library \<Rightarrow> model_main \<Rightarrow> key \<Rightarrow> (model_main \<times> cmd) option" where
  "handlePromptInput L m k =
     (case activeCommand m of
        None \<Rightarrow> Some (m\<lparr>inPrompt := False\<rparr>, CmdNone)
      | Some ac \<Rightarrow>
          if label ac = ''custom''
          then (if keyString k = ''esc''
                then Some (m\<lparr>inPrompt := False, activeCommand := None, currentPrompt := []\<rparr>,
                           CmdNone)
                else if keyString k = ''enter''
                then let raw = TrimSpace (Value (customCmdInput m));
                         m1 = m\<lparr>inPrompt := False, activeCommand := None, currentPrompt := []\<rparr>
                     in if raw = [] then Some (m1, CmdNone)
                        else let parts = ''devtunnel'' # Fields raw
                             in Some (m1\<lparr>lastCommand := parts\<rparr>, runCommandCmd parts)
                else Some (m\<lparr>customCmdInput := textinput_Update L k (customCmdInput m)\<rparr>,
                           CmdInput))
          else if keyString k = ''esc''
          then Some (m\<lparr>inPrompt := False, activeCommand := None, currentPrompt := []\<rparr>, CmdNone)
          else if keyString k = ''enter''
          then (case idx (promptInputs m) (promptIndex m) of
                  None \<Rightarrow> None
                | Some cur \<Rightarrow>
                   if \<not> (0 \<le> promptIndex m \<and> promptIndex m < len (promptValues m)) then None
                   else
                    let m1 = m\<lparr>promptValues :=
                                 (promptValues m)[nat (promptIndex m) := TrimSpace (Value cur)]\<rparr>
                    in if promptIndex m1 < len (promptInputs m1) - 1
                       then (let inputs1 = (promptInputs m1)[nat (promptIndex m1) := Blur cur];
                                 i1 = promptIndex m1 + 1
                             in case idx inputs1 i1 of
                                  None \<Rightarrow> None
                                | Some nxt \<Rightarrow>
                                    Some (m1\<lparr>promptInputs := inputs1[nat i1 := Focus nxt],
                                             promptIndex := i1,
                                             currentPrompt := Placeholder (Focus nxt)\<rparr>, CmdNone))
                       else (case promptLoop (promptValues m1) 0 (requiredArgs ac)
                                    (baseArgs_main ac) of
                               Panic \<Rightarrow> None
                             | Missing l \<Rightarrow>
                                 Some (m1\<lparr>status := ''missing required argument: '' @ l,
                                          inPrompt := False, activeCommand := None,
                                          currentPrompt := []\<rparr>, CmdNone)
                             | Collected args \<Rightarrow>
                                (case (if optionalArg ac \<noteq> []
                                       then (let optIndex =
                                                   (if len (requiredArgs ac) = len (promptInputs m1)
                                                    then - 1 else len (promptInputs m1) - 1)
                                             in if optIndex \<ge> 0
                                                then (case idx (promptValues m1) optIndex of
                                                        None \<Rightarrow> None
                                                      | Some pv \<Rightarrow>
                                                          let extra = TrimSpace pv
                                                          in Some (if extra \<noteq> []
                                                                   then args @ Fields extra
                                                                   else args))
                                                else Some args)
                                       else Some args) of
                                   None \<Rightarrow> None
                                 | Some args2 \<Rightarrow>
                                     let parts = ''devtunnel'' # args2
                                     in Some (m1\<lparr>lastCommand := parts, inPrompt := False,
                                                 activeCommand := None, currentPrompt := []\<rparr>,
                                              runCommandCmd parts))))
          else (case idx (promptInputs m) (promptIndex m) of
                  None \<Rightarrow> None
                | Some cur \<Rightarrow>
                    Some (m\<lparr>promptInputs := (promptInputs m)[nat (promptIndex m) :=
                                                textinput_Update L k cur]\<rparr>, CmdInput)))"

text \<open>The end of \<open>Update\<close>, reached by every case that does not return: the viewport
  gets the message.\<close>

definition viewportTail :: "library \<Rightarrow> model_main \<Rightarrow> msg \<Rightarrow> (model_main \<times> cmd) option" where
  "viewportTail L m ms =
     Some (m\<lparr>viewport_main := viewport_Update L ms (viewport_main m)\<rparr>, CmdViewport)"

definition Update_main :: "library \<Rightarrow> model_main \<Rightarrow> msg \<Rightarrow> (model_main \<times> cmd) option" where
  "Update_main L m ms =
     (case ms of
        WindowSizeMsg w h \<Rightarrow>
          (let m1 = m\<lparr>width_main := w, height_main := h\<rparr> in
           if \<not> ready_main m1
           then viewportTail L
                  (m1\<lparr>viewport_main := SetContent L ''Waiting for command output...''
                                          (viewport_New (subInt w 4) (max 8 (subInt h 14))),
                       ready_main := True\<rparr>) ms
           else viewportTail L
                  (m1\<lparr>viewport_main := (viewport_main m1)\<lparr>Width := subInt w 4,
                                                            Height := max 8 (subInt h 14)\<rparr>\<rparr>) ms)
      | KeyMsg k \<Rightarrow>
          (let s = keyString k in
           if running_main m
           then (if s = ''ctrl+c'' \<or> s = ''q'' then Some (m, CmdQuit) else viewportTail L m ms)
           else if inPrompt m then handlePromptInput L m k
           else if s = ''ctrl+c'' \<or> s = ''q'' then Some (m, CmdQuit)
           else if s = ''?'' then viewportTail L (m\<lparr>showHelp := \<not> showHelp m\<rparr>) ms
           else if s = ''up'' \<or> s = ''k''
           then viewportTail L (if selected m > 0 then m\<lparr>selected := selected m - 1\<rparr> else m) ms
           else if s = ''down'' \<or> s = ''j''
           then viewportTail L (if selected m < len (commands_main m) - 1
                                then m\<lparr>selected := selected m + 1\<rparr> else m) ms
           else if s = ''r''
           then (if len (lastCommand m) > 0 then Some (m, runCommandCmd (lastCommand m))
                 else viewportTail L m ms)
           else if s = ''enter''
           then (case idx (commands_main m) (selected m) of
                   None \<Rightarrow> None
                 | Some selectedCommand \<Rightarrow> startPrompt m selectedCommand)
           else viewportTail L m ms)
      | RunStartedMsg c \<Rightarrow>
          Some (m\<lparr>running_main := True, status := ''running: '' @ c, lastCommandText := c,
                  viewport_main := SetContent L
                     (''Running command...'' @ [CHR 0x0A, CHR 0x0A] @ c) (viewport_main m)\<rparr>,
                CmdTick)
      | RunFinishedMsg c out err \<Rightarrow>
          (if c = ''which devtunnel''
           then (if err \<noteq> None
                 then Some (m\<lparr>devtunnelFound_main := False,
                              status := ''devtunnel not found in PATH''\<rparr>, CmdNone)
                 else Some (m\<lparr>devtunnelFound_main := True, status := ''ready''\<rparr>, CmdNone))
           else let m1 = m\<lparr>running_main := False\<rparr>;
                    m2 = (if err \<noteq> None then m1\<lparr>status := ''command failed''\<rparr>
                          else m1\<lparr>status := ''command completed''\<rparr>);
                    m3 = m2\<lparr>lastOutput_main := out\<rparr>
                in Some (m3\<lparr>viewport_main := GotoTop (SetContent L
                            (''$ '' @ c @ [CHR 0x0A, CHR 0x0A] @ out) (viewport_main m3))\<rparr>,
                         CmdNone))
      | TickMsg \<Rightarrow> (if running_main m then Some (m, CmdTick) else viewportTail L m ms)
      | OtherMsg \<Rightarrow> viewportTail L m ms)"

fun steps_main :: "library \<Rightarrow> model_main \<Rightarrow> msg list \<Rightarrow> (model_main \<times> cmd list) option" where
  "steps_main L m [] = Some (m, [])"
| "steps_main L m (x # xs) =
     (case Update_main L m x of
        None \<Rightarrow> None
      | Some (m1, c) \<Rightarrow>
          (case steps_main L m1 xs of None \<Rightarrow> None | Some (m2, cs) \<Rightarrow> Some (m2, c # cs)))"

section \<open>The process runner\<close>

text \<open>
  What the operating system reports for one child process: the merged output captured
  (\<open>out.String()\<close>), the error of \<open>Run()\<close>, and whether the context's error is
  \<open>context.DeadlineExceeded\<close> when the function tests it.
\<close>

record exec_result =
  captured :: string
  runErr :: "run_error option"
  deadlineExceeded :: bool

text \<open>The two functions that \<open>runCommandCmd\<close> puts in sequence: the first returns the
  started message, the second runs the child process and returns the finished message.\<close>

definition runStarted :: "string list \<Rightarrow> msg" where
  "runStarted parts = RunStartedMsg (Join parts '' '')"

definition runFinished :: "string list \<Rightarrow> exec_result \<Rightarrow> msg" where
  "runFinished parts r =
     (let cmdText = Join parts '' '' in
      if deadlineExceeded r
      then RunFinishedMsg cmdText
             (captured r @ [CHR 0x0A, CHR 0x0A] @ ''Timed out after 10 minutes.'')
             (Some DeadlineExceeded)
      else RunFinishedMsg cmdText (captured r) (runErr r))"

definition runFinished_main :: "string list \<Rightarrow> exec_result \<Rightarrow> msg" where
  "runFinished_main parts r =
     (let cmdText = Join parts '' '' in
      if deadlineExceeded r
      then RunFinishedMsg cmdText
             (captured r @ [CHR 0x0A, CHR 0x0A] @ ''Timed out after 5 minutes.'')
             (Some DeadlineExceeded)
      else RunFinishedMsg cmdText (captured r) (runErr r))"

text \<open>The run notifications that a command delivers to the event loop, in order of
  delivery. A sequence runs its functions one after the other; the commands of the
  library deliver no run notification.\<close>

fun notifications :: "exec_result \<Rightarrow> cmd \<Rightarrow> msg list" where
  "notifications r (CmdRun parts) = [runStarted parts, runFinished parts r]"
| "notifications r c = []"

fun notifications_main :: "exec_result \<Rightarrow> cmd \<Rightarrow> msg list" where
  "notifications_main r (CmdRun parts) = [runStarted parts, runFinished_main parts r]"
| "notifications_main r c = []"

text \<open>The startup probe is the single function \<open>checkBinaryCmd\<close>: it delivers one
  message.\<close>

definition probeNotifications :: "bool \<Rightarrow> msg list" where
  "probeNotifications found = [checkBinaryCmd found]"

definition probeNotifications_main :: "bool \<Rightarrow> msg list" where
  "probeNotifications_main found = [checkBinaryCmd_main found]"

section \<open>Notions of the specification\<close>

text \<open>
  Ordering of run notifications, as the specification words it: every finished
  notification in a sequence of delivered messages has a started notification for the same
  command text before it. The first argument collects the command texts started so far.
\<close>

fun startedFirst :: "string list \<Rightarrow> msg list \<Rightarrow> bool" where
  "startedFirst seen [] = True"
| "startedFirst seen (RunStartedMsg c # ms) = startedFirst (c # seen) ms"
| "startedFirst seen (RunFinishedMsg c out err # ms) = (c \<in> set seen \<and> startedFirst seen ms)"
| "startedFirst seen (m # ms) = startedFirst seen ms"

text \<open>The text a command is matched against: name, description and base arguments,
  joined by single spaces.\<close>

definition haystack :: "commandItem \<Rightarrow> string" where
  "haystack it = name it @ '' '' @ description it @ '' '' @ Join (baseArgs it) '' ''"

text \<open>
  The visible list, as the specification words it: the commands of the category whose
  haystack contains the filter text, compared without regard to case, in catalog order.
\<close>

definition specVisible :: "string \<Rightarrow> commandItem list \<Rightarrow> commandItem list" where
  "specVisible flt items = filter (\<lambda>it. Contains (ToLower (haystack it)) (ToLower flt)) items"

section \<open>Sample inputs\<close>

definition sampleTimedOut :: exec_result where
  "sampleTimedOut = \<lparr>captured = ''Hosting port 8080'', runErr = Some ExitError,
                      deadlineExceeded = True\<rparr>"

definition sampleDone :: exec_result where
  "sampleDone = \<lparr>captured = ''Tunnel ID: t1'', runErr = None, deadlineExceeded = False\<rparr>"

text \<open>The model after the filter text \<open>flt\<close> has been typed into the filter input of
  the initial model.\<close>

definition filterTyped :: "string \<Rightarrow> model" where
  "filterTyped flt = initialModel\<lparr>filterInput := (filterInput initialModel)\<lparr>tiValue := flt\<rparr>\<rparr>"

text \<open>
  The argument vector of a form, as the specification words it: the tool name, the base
  arguments, the required values in declared order (each one token, trimmed), then the
  white-space-separated tokens of the optional field when the command has an optional
  label. \<open>vals\<close> are the texts of the fields, the optional one last.
\<close>

definition specVector :: "string list \<Rightarrow> string list \<Rightarrow> string \<Rightarrow> string list \<Rightarrow> string list" where
  "specVector base req opt vals =
     ''devtunnel'' # base @ map TrimSpace (take (length req) vals)
       @ (if opt \<noteq> [] \<and> vals \<noteq> [] then Fields (TrimSpace (last vals)) else [])"

text \<open>main.go keeps the text of each field in \<open>promptValues\<close> when enter is pressed on
  it. \<open>storedValues m\<close> are the stored values once the focused field has been stored,
  which is the first statement of the enter case.\<close>

definition storedValues :: "model_main \<Rightarrow> string list" where
  "storedValues m =
     (promptValues m)[nat (promptIndex m) :=
        TrimSpace (Value (promptInputs m ! nat (promptIndex m)))]"

text \<open>A command with two required labels and an optional one, and the form (prompt) of
  each program open on it at field \<open>i\<close> with the texts \<open>vals\<close> in its fields, after a
  first command has been run.\<close>

definition sampleItem :: commandItem where
  "sampleItem =
     item ''port create'' ''Create a port'' [''port'', ''create''] [''tunnel-id'', ''port'']
       ''flags'' []"

definition sampleForm :: "int \<Rightarrow> string list \<Rightarrow> model" where
  "sampleForm i vals =
     initialModel\<lparr>devtunnelFound := True, statusText := ''command completed'',
       lastCmd := [''devtunnel'', ''list''], lastOutput := ''No tunnels'',
       formMode := True, formCmd := Some sampleItem, formTitle := name sampleItem,
       formLabels := [''tunnel-id'', ''port'', ''flags''],
       formInputs := map (\<lambda>(l, v). (newFormInput l)\<lparr>tiValue := v\<rparr>)
                         (zip [''tunnel-id'', ''port'', ''flags''] vals),
       formIndex := i\<rparr>"

definition sampleSpec :: commandSpec where
  "sampleSpec =
     spec ''port create'' ''Create a port'' [''port'', ''create''] [''tunnel-id'', ''port'']
       ''optional args''"

definition samplePrompt :: "int \<Rightarrow> string list \<Rightarrow> string list \<Rightarrow> model_main" where
  "samplePrompt i vals stored =
     initialModel_main\<lparr>devtunnelFound_main := True, status := ''command completed'',
       lastCommand := [''devtunnel'', ''list''], lastOutput_main := ''No tunnels'',
       inPrompt := True, activeCommand := Some sampleSpec,
       promptInputs := map (\<lambda>(l, v). (newPromptInput l)\<lparr>tiValue := v\<rparr>)
                           (zip [''tunnel-id'', ''port'', ''optional args''] vals),
       promptValues := stored, promptIndex := i\<rparr>"

section \<open>The process runner: notifications\<close>

lemma runCommandCmd_nonempty: "parts \<noteq> [] \<Longrightarrow> runCommandCmd parts = CmdRun parts"
  by (simp add: runCommandCmd_def len_def)

lemma runCommandCmd_empty: "runCommandCmd [] = CmdNone"
  by (simp add: runCommandCmd_def len_def)

text \<open>
  C8. An execution whose context reports the deadline as exceeded yields one finished
  notification, whose error is the deadline error and whose output is the captured
  output followed by the timeout notice (10 minutes in the program with categories,
  5 minutes in main.go). An execution that ends within the deadline yields one finished
  notification whose output is the captured output alone, with the error of the run.
\<close>

theorem timeout_output:
  "(deadlineExceeded r \<longrightarrow>
      runFinished parts r =
        RunFinishedMsg (Join parts '' '')
          (captured r @ [CHR 0x0A, CHR 0x0A] @ ''Timed out after 10 minutes.'')
          (Some DeadlineExceeded)
      \<and> runFinished_main parts r =
        RunFinishedMsg (Join parts '' '')
          (captured r @ [CHR 0x0A, CHR 0x0A] @ ''Timed out after 5 minutes.'')
          (Some DeadlineExceeded))
   \<and> (\<not> deadlineExceeded r \<longrightarrow>
      runFinished parts r = RunFinishedMsg (Join parts '' '') (captured r) (runErr r)
      \<and> runFinished_main parts r = RunFinishedMsg (Join parts '' '') (captured r) (runErr r))
   \<and> (parts \<noteq> [] \<longrightarrow>
      notifications r (runCommandCmd parts)
        = [RunStartedMsg (Join parts '' ''), runFinished parts r]
      \<and> notifications_main r (runCommandCmd parts)
        = [RunStartedMsg (Join parts '' ''), runFinished_main parts r])"
  by (simp add: runFinished_def runFinished_main_def runCommandCmd_nonempty runStarted_def)

theorem timeout_output_witness:
  "deadlineExceeded sampleTimedOut
   \<and> notifications sampleTimedOut (runCommandCmd [''devtunnel'', ''host''])
       = [RunStartedMsg ''devtunnel host'',
          RunFinishedMsg ''devtunnel host''
            (''Hosting port 8080'' @ [CHR 0x0A, CHR 0x0A] @ ''Timed out after 10 minutes.'')
            (Some DeadlineExceeded)]
   \<and> \<not> deadlineExceeded sampleDone
   \<and> notifications_main sampleDone (runCommandCmd [''devtunnel'', ''show'', ''t1''])
       = [RunStartedMsg ''devtunnel show t1'',
          RunFinishedMsg ''devtunnel show t1'' ''Tunnel ID: t1'' None]"
  using timeout_output [of sampleTimedOut "[''devtunnel'', ''host'']"]
        timeout_output [of sampleDone "[''devtunnel'', ''show'', ''t1'']"]
  by (simp add: sampleTimedOut_def sampleDone_def)

text \<open>
  C3, as the code has it. Every command built by \<open>runCommandCmd\<close> from a non-empty
  vector delivers exactly two run notifications, the started one first and the finished
  one second, both with the same command text. The startup probe delivers a single
  finished notification and no started notification.
\<close>

theorem run_started_then_finished:
  "(parts \<noteq> [] \<longrightarrow>
      startedFirst [] (notifications r (runCommandCmd parts))
      \<and> startedFirst [] (notifications_main r (runCommandCmd parts))
      \<and> (\<exists>out err. notifications r (runCommandCmd parts)
            = [RunStartedMsg (Join parts '' ''), RunFinishedMsg (Join parts '' '') out err])
      \<and> (\<exists>out err. notifications_main r (runCommandCmd parts)
            = [RunStartedMsg (Join parts '' ''), RunFinishedMsg (Join parts '' '') out err]))
   \<and> probeNotifications found
        = [RunFinishedMsg ''which devtunnel''
             (if found then ''devtunnel detected'' else ''devtunnel not found in PATH'')
             (if found then None else Some NotFound)]
   \<and> probeNotifications_main found
        = [RunFinishedMsg ''which devtunnel''
             (if found then ''devtunnel found and ready''
              else ''devtunnel was not found in PATH'')
             (if found then None else Some NotFound)]"
  by (simp add: runCommandCmd_nonempty runStarted_def runFinished_def runFinished_main_def
        Let_def probeNotifications_def probeNotifications_main_def checkBinaryCmd_def
        checkBinaryCmd_main_def)

theorem run_started_then_finished_witness:
  "[''devtunnel'', ''list''] \<noteq> []
   \<and> startedFirst [] (notifications sampleDone (runCommandCmd [''devtunnel'', ''list'']))
   \<and> startedFirst [] (notifications_main sampleTimedOut (runCommandCmd [''devtunnel'', ''list'']))
   \<and> probeNotifications True
        = [RunFinishedMsg ''which devtunnel'' ''devtunnel detected'' None]"
  using run_started_then_finished [of "[''devtunnel'', ''list'']" sampleDone True]
        run_started_then_finished [of "[''devtunnel'', ''list'']" sampleTimedOut True]
  by simp

text \<open>
  C3 as stated fails at the startup probe: its finished notification is delivered
  without any started notification before it, whether or not the tool is found.
\<close>

theorem probe_finished_without_started:
  "\<not> startedFirst [] (probeNotifications False)
   \<and> \<not> startedFirst [] (probeNotifications True)
   \<and> \<not> startedFirst [] (probeNotifications_main False)
   \<and> \<not> startedFirst [] (probeNotifications_main True)"
  by (simp add: probeNotifications_def probeNotifications_main_def checkBinaryCmd_def
        checkBinaryCmd_main_def)

section \<open>Strings\<close>

lemma HasPrefix_iff: "HasPrefix s p \<longleftrightarrow> (\<exists>suf. s = p @ suf)"
  by (induction s p rule: HasPrefix.induct) auto

text \<open>\<open>Contains\<close> is the substring relation.\<close>

lemma Contains_iff: "Contains s sub \<longleftrightarrow> (\<exists>pre suf. s = pre @ sub @ suf)"
proof (induction s)
  case Nil
  then show ?case by auto
next
  case (Cons c cs)
  show ?case
  proof
    assume "Contains (c # cs) sub"
    then consider "HasPrefix (c # cs) sub" | "Contains cs sub" by auto
    then show "\<exists>pre suf. c # cs = pre @ sub @ suf"
    proof cases
      case 1
      then obtain suf where "c # cs = sub @ suf" by (auto simp: HasPrefix_iff)
      then have "c # cs = [] @ sub @ suf" by simp
      then show ?thesis by blast
    next
      case 2
      then obtain pre suf where "cs = pre @ sub @ suf" using Cons.IH by auto
      then have "c # cs = (c # pre) @ sub @ suf" by simp
      then show ?thesis by blast
    qed
  next
    assume "\<exists>pre suf. c # cs = pre @ sub @ suf"
    then obtain pre suf where e: "c # cs = pre @ sub @ suf" by blast
    show "Contains (c # cs) sub"
    proof (cases pre)
      case Nil
      with e have "HasPrefix (c # cs) sub" by (auto simp: HasPrefix_iff)
      then show ?thesis by simp
    next
      case (Cons p ps)
      with e have "cs = ps @ sub @ suf" by simp
      then have "Contains cs sub" using Cons.IH by blast
      then show ?thesis by simp
    qed
  qed
qed

lemma Contains_Nil: "Contains s []"
  by (cases s) simp_all

lemma char_nat_iff: "(c = d) \<longleftrightarrow> ((of_char c :: nat) = of_char d)"
  by auto

lemma isSpace_code: "isSpace c \<longleftrightarrow> (of_char c :: nat) \<in> {9, 10, 11, 12, 13, 32}"
  using char_nat_iff [of c "CHR 0x09"] char_nat_iff [of c "CHR 0x0A"] char_nat_iff [of c "CHR 0x0B"]
    char_nat_iff [of c "CHR 0x0C"] char_nat_iff [of c "CHR 0x0D"] char_nat_iff [of c "CHR 0x20"]
  by (simp add: isSpace_def)

lemma isSpace_lowerChar: "isSpace (lowerChar c) = isSpace c"
proof (cases "65 \<le> (of_char c :: nat) \<and> (of_char c :: nat) \<le> 90")
  case True
  then have "(of_char (lowerChar c) :: nat) = of_char c + 32"
    by (simp add: lowerChar_def Let_def)
  with True show ?thesis by (simp add: isSpace_code)
next
  case False
  then show ?thesis by (auto simp add: lowerChar_def Let_def)
qed

lemma TrimSpace_ToLower: "TrimSpace (ToLower s) = ToLower (TrimSpace s)"
  by (simp add: TrimSpace_def ToLower_def dropWhile_map rev_map comp_def isSpace_lowerChar)

lemma dropWhile_hd_id: "xs = [] \<or> \<not> P (hd xs) \<Longrightarrow> dropWhile P xs = xs"
  by (cases xs) auto

lemma TrimSpace_fix:
  assumes "s = [] \<or> (\<not> isSpace (hd s) \<and> \<not> isSpace (last s))"
  shows "TrimSpace s = s"
proof (cases "s = []")
  case True
  then show ?thesis by (simp add: TrimSpace_def)
next
  case False
  with assms have h: "\<not> isSpace (hd s)" and l: "\<not> isSpace (last s)" by auto
  from False h have 1: "dropWhile isSpace s = s" by (simp add: dropWhile_hd_id)
  from False l have 2: "dropWhile isSpace (rev s) = rev s"
    by (simp add: dropWhile_hd_id hd_rev)
  show ?thesis by (simp add: TrimSpace_def 1 2)
qed

lemma TrimSpace_shape:
  "TrimSpace s = [] \<or> (\<not> isSpace (hd (TrimSpace s)) \<and> \<not> isSpace (last (TrimSpace s)))"
proof (cases "TrimSpace s = []")
  case True
  then show ?thesis by simp
next
  case False
  define t where "t = dropWhile isSpace s"
  define u where "u = TrimSpace s"
  have u: "rev u = dropWhile isSpace (rev t)" by (simp add: u_def t_def TrimSpace_def)
  from False have une: "u \<noteq> []" by (simp add: u_def)
  have "dropWhile isSpace (rev t) \<noteq> []"
  proof
    assume "dropWhile isSpace (rev t) = []"
    with u have "rev u = []" by simp
    with une show False by simp
  qed
  then have "\<not> isSpace (hd (dropWhile isSpace (rev t)))" by (rule hd_dropWhile)
  then have l: "\<not> isSpace (last u)" using u une by (metis hd_rev)
  have "rev t = takeWhile isSpace (rev t) @ rev u" using u by simp
  then have "t = u @ rev (takeWhile isSpace (rev t))"
    by (metis rev_append rev_rev_ident)
  then have ht: "hd t = hd u" using une by (metis hd_append2)
  have "t \<noteq> []"
  proof
    assume "t = []"
    with u have "rev u = []" by simp
    with une show False by simp
  qed
  then have "\<not> isSpace (hd t)" unfolding t_def by (rule hd_dropWhile)
  with ht l show ?thesis by (simp add: u_def)
qed

lemma TrimSpace_idem: "TrimSpace (TrimSpace s) = TrimSpace s"
  using TrimSpace_shape [of s] by (rule TrimSpace_fix)

section \<open>The visible command list\<close>

lemma visibleLoop_filter:
  "visibleLoop flt items out = out @ filter (\<lambda>it. Contains (ToLower (haystack it)) flt) items"
  by (induction items arbitrary: out) (simp_all add: haystack_def Let_def)

lemma visibleCommands_spec:
  assumes "0 \<le> catIdx m" "catIdx m < len (categories m)"
  shows "visibleCommands m =
           specVisible (TrimSpace (Value (filterInput m)))
             (commands (categories m ! nat (catIdx m)))"
  using assms
  by (auto simp add: visibleCommands_def specVisible_def Let_def visibleLoop_filter
        TrimSpace_ToLower Contains_Nil)

text \<open>
  C5, as the code has it. For every filter text and every category index within the
  catalog, the visible command list is the subsequence, in catalog order, of the
  category's commands whose lower-cased text "name description base-args" (joined by
  single spaces) contains, as a substring, the lower-cased filter text with its leading
  and trailing white space removed. When the trimmed filter text is empty the visible
  list is the whole category. When the category index is outside the catalog the list is
  empty.
\<close>

theorem visible_commands_trimmed_filter:
  "(0 \<le> catIdx m \<and> catIdx m < len (categories m) \<longrightarrow>
      visibleCommands m
        = specVisible (TrimSpace (Value (filterInput m)))
            (commands (categories m ! nat (catIdx m)))
      \<and> visibleCommands m
        = filter (\<lambda>it. \<exists>pre suf. ToLower (haystack it)
                          = pre @ ToLower (TrimSpace (Value (filterInput m))) @ suf)
            (commands (categories m ! nat (catIdx m)))
      \<and> (TrimSpace (Value (filterInput m)) = [] \<longrightarrow>
           visibleCommands m = commands (categories m ! nat (catIdx m))))
   \<and> (\<not> (0 \<le> catIdx m \<and> catIdx m < len (categories m)) \<longrightarrow> visibleCommands m = [])"
proof -
  have out: "\<not> (0 \<le> catIdx m \<and> catIdx m < len (categories m)) \<Longrightarrow> visibleCommands m = []"
    by (auto simp add: visibleCommands_def)
  {
    assume r: "0 \<le> catIdx m \<and> catIdx m < len (categories m)"
    then have 1: "visibleCommands m
        = specVisible (TrimSpace (Value (filterInput m)))
            (commands (categories m ! nat (catIdx m)))"
      by (simp add: visibleCommands_spec)
    have 2: "visibleCommands m
        = filter (\<lambda>it. \<exists>pre suf. ToLower (haystack it)
                          = pre @ ToLower (TrimSpace (Value (filterInput m))) @ suf)
            (commands (categories m ! nat (catIdx m)))"
      unfolding 1 specVisible_def Contains_iff ..
    have 3: "TrimSpace (Value (filterInput m)) = [] \<Longrightarrow>
           visibleCommands m = commands (categories m ! nat (catIdx m))"
      unfolding 1 by (simp add: specVisible_def ToLower_def Contains_Nil)
    note 1 2 3
  }
  with out show ?thesis by blast
qed

theorem visible_commands_trimmed_filter_witness:
  "0 \<le> catIdx (filterTyped ''Show  '') \<and> catIdx (filterTyped ''Show  '') < len (categories (filterTyped ''Show  ''))
   \<and> visibleCommands (filterTyped ''Show  '')
       = [item ''show'' ''Show tunnel details'' [''show''] [''tunnel-id''] [] []]
   \<and> TrimSpace (Value (filterInput (filterTyped '' ''))) = []
   \<and> visibleCommands (filterTyped '' '') = commands (catalog ! 0)"
proof -
  have h: "0 \<le> catIdx (filterTyped f) \<and> catIdx (filterTyped f) < len (categories (filterTyped f))"
    for f
    by (simp add: filterTyped_def initialModel_def catalog_def len_def)
  have c: "categories (filterTyped f) ! nat (catIdx (filterTyped f)) = catalog ! 0" for f
    by (simp add: filterTyped_def initialModel_def)
  have t1: "TrimSpace (Value (filterInput (filterTyped ''Show  ''))) = ''Show''"
    by (simp add: filterTyped_def initialModel_def Value_def TrimSpace_def isSpace_def)
  have t2: "TrimSpace (Value (filterInput (filterTyped '' ''))) = []"
    by (simp add: filterTyped_def initialModel_def Value_def TrimSpace_def isSpace_def)
  from visible_commands_trimmed_filter [of "filterTyped ''Show  ''"] h
  have "visibleCommands (filterTyped ''Show  '') = specVisible ''Show'' (commands (catalog ! 0))"
    by (simp add: c t1)
  moreover have "specVisible ''Show'' (commands (catalog ! 0))
      = [item ''show'' ''Show tunnel details'' [''show''] [''tunnel-id''] [] []]"
    by code_simp
  moreover have "visibleCommands (filterTyped '' '')
      = commands (categories (filterTyped '' '') ! nat (catIdx (filterTyped '' '')))"
    using visible_commands_trimmed_filter [of "filterTyped '' ''"] h t2 by blast
  ultimately show ?thesis using h t2 by (simp add: c)
qed

text \<open>
  C5 as stated fails for a filter text with surrounding white space: after typing
  \<open>show\<close> and two spaces the program still lists the command \<open>show\<close>, although no
  command's text contains \<open>show\<close> followed by two spaces.
\<close>

theorem visible_commands_untrimmed_counterexample:
  "visibleCommands (filterTyped ''show  '')
     = [item ''show'' ''Show tunnel details'' [''show''] [''tunnel-id''] [] []]
   \<and> specVisible ''show  '' (commands (categories (filterTyped ''show  '') ! 0)) = []"
  by code_simp

section \<open>Forms: the program with categories\<close>
lemma Fields_Nil: "Fields [] = []"
  by (simp add: Fields_def)

lemma idx_in: "0 \<le> i \<Longrightarrow> nat i < length xs \<Longrightarrow> idx xs i = Some (xs ! nat i)"
  by (auto simp add: idx_def len_def)

lemma requiredLoop_Missing:
  assumes "n < length labels" "0 \<le> i" "nat i + length labels \<le> length inputs"
    "TrimSpace (Value (inputs ! (nat i + n))) = []"
    "\<forall>j<n. TrimSpace (Value (inputs ! (nat i + j))) \<noteq> []"
  shows "requiredLoop inputs i labels parts = Missing (labels ! n)"
  using assms
proof (induction labels arbitrary: i n parts)
  case Nil
  then show ?case by simp
next
  case (Cons l ls)
  from Cons.prems have in1: "idx inputs i = Some (inputs ! nat i)" by (simp add: idx_in)
  show ?case
  proof (cases n)
    case 0
    with Cons.prems in1 show ?thesis by simp
  next
    case (Suc k)
    with Cons.prems have ne: "TrimSpace (Value (inputs ! nat i)) \<noteq> []" by force
    have n1: "nat (i + 1) = Suc (nat i)" using Cons.prems by simp
    have "requiredLoop inputs (i + 1) ls (parts @ [TrimSpace (Value (inputs ! nat i))]) = Missing (ls ! k)"
    proof (rule Cons.IH)
      show "k < length ls" using Cons.prems Suc by simp
      show "0 \<le> i + 1" using Cons.prems by simp
      show "nat (i + 1) + length ls \<le> length inputs" using Cons.prems n1 by simp
      show "TrimSpace (Value (inputs ! (nat (i + 1) + k))) = []" using Cons.prems Suc n1 by simp
      show "\<forall>j<k. TrimSpace (Value (inputs ! (nat (i + 1) + j))) \<noteq> []"
      proof (intro allI impI)
        fix j assume "j < k"
        then have "Suc j < n" using Suc by simp
        with Cons.prems have "TrimSpace (Value (inputs ! (nat i + Suc j))) \<noteq> []" by blast
        then show "TrimSpace (Value (inputs ! (nat (i + 1) + j))) \<noteq> []" using n1 by simp
      qed
    qed
    with in1 ne Suc show ?thesis by (simp add: Let_def)
  qed
qed

lemma requiredLoop_Collected:
  assumes "0 \<le> i" "nat i + length labels \<le> length inputs"
    "\<forall>j<length labels. TrimSpace (Value (inputs ! (nat i + j))) \<noteq> []"
  shows "requiredLoop inputs i labels parts
           = Collected (parts @ map TrimSpace (take (length labels) (drop (nat i) (map Value inputs))))"
  using assms
proof (induction labels arbitrary: i parts)
  case Nil
  then show ?case by simp
next
  case (Cons l ls)
  from Cons.prems have lt: "nat i < length inputs" by simp
  with Cons.prems have in1: "idx inputs i = Some (inputs ! nat i)" by (simp add: idx_in)
  from Cons.prems have ne: "TrimSpace (Value (inputs ! nat i)) \<noteq> []" by force
  have n1: "nat (i + 1) = Suc (nat i)" using Cons.prems by simp
  have "requiredLoop inputs (i + 1) ls (parts @ [TrimSpace (Value (inputs ! nat i))])
      = Collected ((parts @ [TrimSpace (Value (inputs ! nat i))])
                   @ map TrimSpace (take (length ls) (drop (nat (i + 1)) (map Value inputs))))"
  proof (rule Cons.IH)
    show "0 \<le> i + 1" using Cons.prems by simp
    show "nat (i + 1) + length ls \<le> length inputs" using Cons.prems n1 by simp
    show "\<forall>j<length ls. TrimSpace (Value (inputs ! (nat (i + 1) + j))) \<noteq> []"
    proof (intro allI impI)
      fix j assume "j < length ls"
      then have "Suc j < length (l # ls)" by simp
      with Cons.prems have "TrimSpace (Value (inputs ! (nat i + Suc j))) \<noteq> []" by blast
      then show "TrimSpace (Value (inputs ! (nat (i + 1) + j))) \<noteq> []" using n1 by simp
    qed
  qed
  moreover have "drop (nat i) (map Value inputs)
      = Value (inputs ! nat i) # drop (Suc (nat i)) (map Value inputs)"
    using lt by (simp add: Cons_nth_drop_Suc [symmetric])
  ultimately show ?case using in1 ne n1 by (simp add: Let_def)
qed

lemma updateForm_submit:
  assumes "formMode m" "formCmd m = Some c" "keyString k = ''enter''"
    "\<not> formIndex m < len (formInputs m) - 1"
    "length (required c) \<le> length (formInputs m)"
    "\<forall>j<length (required c). TrimSpace (Value (formInputs m ! j)) \<noteq> []"
  shows "Update L m (KeyMsg k)
     = Some (m\<lparr>formMode := False, formCmd := None, formInputs := [], formLabels := [],
               formTitle := [], formIndex := 0,
               lastCmd := specVector (baseArgs c) (required c) (optional c) (map Value (formInputs m))\<rparr>,
             CmdRun (specVector (baseArgs c) (required c) (optional c) (map Value (formInputs m))))"
proof -
  have rl: "requiredLoop (formInputs m) 0 (required c) (''devtunnel'' # baseArgs c)
     = Collected ((''devtunnel'' # baseArgs c)
         @ map TrimSpace (take (length (required c)) (drop (nat 0) (map Value (formInputs m)))))"
    by (rule requiredLoop_Collected) (use assms in auto)
  have lastv: "formInputs m \<noteq> [] \<Longrightarrow>
      Value (formInputs m ! nat (len (formInputs m) - 1)) = last (map Value (formInputs m))"
    by (simp add: len_def last_conv_nth nat_diff_distrib' last_map)
  show ?thesis
    using assms(1-4) rl lastv
    by (auto simp add: Update_def updateForm_def specVector_def Let_def runCommandCmd_def
          len_def Fields_Nil)
qed


lemma updateForm_abort:
  assumes "formMode m" "formCmd m = Some c" "keyString k = ''enter''"
    "\<not> formIndex m < len (formInputs m) - 1"
    "length (required c) \<le> length (formInputs m)"
    "n < length (required c)"
    "TrimSpace (Value (formInputs m ! n)) = []"
    "\<forall>j<n. TrimSpace (Value (formInputs m ! j)) \<noteq> []"
  shows "Update L m (KeyMsg k)
     = Some (m\<lparr>statusErr := True, statusText := ''missing required: '' @ required c ! n,
               formMode := False, formCmd := None\<rparr>, CmdNone)"
proof -
  have "requiredLoop (formInputs m) 0 (required c) (''devtunnel'' # baseArgs c)
          = Missing (required c ! n)"
    by (rule requiredLoop_Missing) (use assms in auto)
  with assms(1-4) show ?thesis
    by (simp add: Update_def updateForm_def)
qed

lemma map_Value_update:
  "i < length xs \<Longrightarrow> Value y = Value (xs ! i) \<Longrightarrow> map Value (xs[i := y]) = map Value xs"
  by (simp add: map_update list_update_same_conv)

lemma updateForm_advance:
  assumes "formMode m" "keyString k = ''enter''" "0 \<le> formIndex m"
    "formIndex m < len (formInputs m) - 1"
  shows "\<exists>m'. Update L m (KeyMsg k) = Some (m', CmdNone)
           \<and> formIndex m' = formIndex m + 1
           \<and> map Value (formInputs m') = map Value (formInputs m)
           \<and> formMode m' \<and> formCmd m' = formCmd m \<and> lastCmd m' = lastCmd m
           \<and> lastOutput m' = lastOutput m"
proof -
  let ?i = "formIndex m"
  have a: "nat ?i < length (formInputs m)" "nat (?i + 1) < length (formInputs m)"
    using assms by (auto simp add: len_def)
  have 1: "idx (formInputs m) ?i = Some (formInputs m ! nat ?i)"
    using assms a by (simp add: idx_in)
  let ?in1 = "(formInputs m)[nat ?i := Blur (formInputs m ! nat ?i)]"
  have 2: "idx ?in1 (?i + 1) = Some (?in1 ! nat (?i + 1))"
    using assms a by (simp add: idx_in)
  have v1: "map Value ?in1 = map Value (formInputs m)"
    using a by (simp add: map_Value_update Value_def Blur_def)
  have v2: "map Value (?in1[nat (?i + 1) := Focus (?in1 ! nat (?i + 1))]) = map Value ?in1"
    using a by (simp add: map_Value_update Value_def Focus_def)
  have "Update L m (KeyMsg k)
      = Some (m\<lparr>formInputs := ?in1[nat (?i + 1) := Focus (?in1 ! nat (?i + 1))],
                formIndex := ?i + 1\<rparr>, CmdNone)"
    using assms 1 2 by (simp add: Update_def updateForm_def Let_def)
  then show ?thesis using assms v1 v2 by simp
qed

lemma map3:
  "map f xs = [a, b, c] \<Longrightarrow> \<exists>x y z. xs = [x, y, z] \<and> f x = a \<and> f y = b \<and> f z = c"
  by (auto simp add: map_eq_Cons_conv)

lemma form_three_enters:
  assumes "required c = [a, b]" "optional c \<noteq> []"
    "formMode m" "formCmd m = Some c" "formIndex m = 0"
    "map Value (formInputs m) = [''X'', ''Y'', ''--flag val'']"
  shows "\<exists>m'. steps L m [KeyMsg KeyEnter, KeyMsg KeyEnter, KeyMsg KeyEnter]
           = Some (m', [CmdNone, CmdNone,
                CmdRun (''devtunnel'' # baseArgs c @ [''X'', ''Y'', ''--flag'', ''val''])])
          \<and> lastCmd m' = ''devtunnel'' # baseArgs c @ [''X'', ''Y'', ''--flag'', ''val'']
          \<and> \<not> formMode m'"
proof -
  have tr: "TrimSpace ''X'' = ''X''" "TrimSpace ''Y'' = ''Y''"
    "TrimSpace ''--flag val'' = ''--flag val''"
    by (simp_all add: TrimSpace_def isSpace_def)
  obtain x0 y0 z0 where i0: "formInputs m = [x0, y0, z0]"
    using map3 [OF assms(6)] by blast
  have "\<exists>m'. Update L m (KeyMsg KeyEnter) = Some (m', CmdNone)
           \<and> formIndex m' = formIndex m + 1
           \<and> map Value (formInputs m') = map Value (formInputs m)
           \<and> formMode m' \<and> formCmd m' = formCmd m \<and> lastCmd m' = lastCmd m
           \<and> lastOutput m' = lastOutput m"
    by (rule updateForm_advance) (use assms i0 in \<open>simp_all add: len_def\<close>)
  then obtain m1 where s1: "Update L m (KeyMsg KeyEnter) = Some (m1, CmdNone)"
    and r1: "formIndex m1 = formIndex m + 1"
      "map Value (formInputs m1) = map Value (formInputs m)"
      "formMode m1" "formCmd m1 = formCmd m"
    by blast
  have q1: "formIndex m1 = 1" "map Value (formInputs m1) = [''X'', ''Y'', ''--flag val'']"
      "formCmd m1 = Some c"
    using r1 assms(4,5,6) by simp_all
  obtain x1 y1 z1 where i1: "formInputs m1 = [x1, y1, z1]"
    using map3 [OF q1(2)] by blast
  have "\<exists>m'. Update L m1 (KeyMsg KeyEnter) = Some (m', CmdNone)
           \<and> formIndex m' = formIndex m1 + 1
           \<and> map Value (formInputs m') = map Value (formInputs m1)
           \<and> formMode m' \<and> formCmd m' = formCmd m1 \<and> lastCmd m' = lastCmd m1
           \<and> lastOutput m' = lastOutput m1"
    by (rule updateForm_advance) (use r1(3) q1 i1 in \<open>simp_all add: len_def\<close>)
  then obtain m2 where s2: "Update L m1 (KeyMsg KeyEnter) = Some (m2, CmdNone)"
    and r2: "formIndex m2 = formIndex m1 + 1"
      "map Value (formInputs m2) = map Value (formInputs m1)"
      "formMode m2" "formCmd m2 = formCmd m1"
    by blast
  have q2: "formIndex m2 = 2" "map Value (formInputs m2) = [''X'', ''Y'', ''--flag val'']"
      "formCmd m2 = Some c"
    using r2 q1 by simp_all
  obtain x2 y2 z2 where i2: "formInputs m2 = [x2, y2, z2]"
      "Value x2 = ''X''" "Value y2 = ''Y''" "Value z2 = ''--flag val''"
    using map3 [OF q2(2)] by blast
  have ne: "\<forall>j<length (required c). TrimSpace (Value (formInputs m2 ! j)) \<noteq> []"
    using assms(1) i2 tr by (simp add: less_Suc_eq)
  have s3: "Update L m2 (KeyMsg KeyEnter)
     = Some (m2\<lparr>formMode := False, formCmd := None, formInputs := [], formLabels := [],
               formTitle := [], formIndex := 0,
               lastCmd := specVector (baseArgs c) (required c) (optional c)
                            (map Value (formInputs m2))\<rparr>,
             CmdRun (specVector (baseArgs c) (required c) (optional c)
                            (map Value (formInputs m2))))"
    using ne by (rule updateForm_submit [rotated -1])
      (use r2(3) q2 i2 assms(1) in \<open>simp_all add: len_def\<close>)
  have sv: "specVector (baseArgs c) (required c) (optional c) (map Value (formInputs m2))
      = ''devtunnel'' # baseArgs c @ [''X'', ''Y'', ''--flag'', ''val'']"
    using assms(1,2) tr by (simp add: specVector_def q2(2) Fields_def isSpace_def)
  show ?thesis using s1 s2 s3 sv by simp
qed

section \<open>Prompts: main.go\<close>

lemma promptLoop_Missing:
  assumes "n < length labels" "0 \<le> i" "nat i + length labels \<le> length vals"
    "TrimSpace (vals ! (nat i + n)) = []"
    "\<forall>j<n. TrimSpace (vals ! (nat i + j)) \<noteq> []"
  shows "promptLoop vals i labels args = Missing (labels ! n)"
  using assms
proof (induction labels arbitrary: i n args)
  case Nil
  then show ?case by simp
next
  case (Cons l ls)
  from Cons.prems have in1: "idx vals i = Some (vals ! nat i)" by (simp add: idx_in)
  show ?case
  proof (cases n)
    case 0
    with Cons.prems in1 show ?thesis by simp
  next
    case (Suc k)
    with Cons.prems have ne: "TrimSpace (vals ! nat i) \<noteq> []" by force
    have n1: "nat (i + 1) = Suc (nat i)" using Cons.prems by simp
    have "promptLoop vals (i + 1) ls (args @ [TrimSpace (vals ! nat i)]) = Missing (ls ! k)"
    proof (rule Cons.IH)
      show "k < length ls" using Cons.prems Suc by simp
      show "0 \<le> i + 1" using Cons.prems by simp
      show "nat (i + 1) + length ls \<le> length vals" using Cons.prems n1 by simp
      show "TrimSpace (vals ! (nat (i + 1) + k)) = []" using Cons.prems Suc n1 by simp
      show "\<forall>j<k. TrimSpace (vals ! (nat (i + 1) + j)) \<noteq> []"
      proof (intro allI impI)
        fix j assume "j < k"
        then have "Suc j < n" using Suc by simp
        with Cons.prems have "TrimSpace (vals ! (nat i + Suc j)) \<noteq> []" by blast
        then show "TrimSpace (vals ! (nat (i + 1) + j)) \<noteq> []" using n1 by simp
      qed
    qed
    with in1 ne Suc show ?thesis by (simp add: Let_def)
  qed
qed

lemma promptLoop_Collected:
  assumes "0 \<le> i" "nat i + length labels \<le> length vals"
    "\<forall>j<length labels. TrimSpace (vals ! (nat i + j)) \<noteq> []"
  shows "promptLoop vals i labels args
           = Collected (args @ map TrimSpace (take (length labels) (drop (nat i) vals)))"
  using assms
proof (induction labels arbitrary: i args)
  case Nil
  then show ?case by simp
next
  case (Cons l ls)
  from Cons.prems have lt: "nat i < length vals" by simp
  with Cons.prems have in1: "idx vals i = Some (vals ! nat i)" by (simp add: idx_in)
  from Cons.prems have ne: "TrimSpace (vals ! nat i) \<noteq> []" by force
  have n1: "nat (i + 1) = Suc (nat i)" using Cons.prems by simp
  have "promptLoop vals (i + 1) ls (args @ [TrimSpace (vals ! nat i)])
      = Collected ((args @ [TrimSpace (vals ! nat i)])
                   @ map TrimSpace (take (length ls) (drop (nat (i + 1)) vals)))"
  proof (rule Cons.IH)
    show "0 \<le> i + 1" using Cons.prems by simp
    show "nat (i + 1) + length ls \<le> length vals" using Cons.prems n1 by simp
    show "\<forall>j<length ls. TrimSpace (vals ! (nat (i + 1) + j)) \<noteq> []"
    proof (intro allI impI)
      fix j assume "j < length ls"
      then have "Suc j < length (l # ls)" by simp
      with Cons.prems have "TrimSpace (vals ! (nat i + Suc j)) \<noteq> []" by blast
      then show "TrimSpace (vals ! (nat (i + 1) + j)) \<noteq> []" using n1 by simp
    qed
  qed
  moreover have "drop (nat i) vals = vals ! nat i # drop (Suc (nat i)) vals"
    using lt by (simp add: Cons_nth_drop_Suc)
  ultimately show ?case using in1 ne n1 by (simp add: Let_def)
qed

lemma len_Cons_pos: "len (x # xs) \<noteq> 0" "0 < len (x # xs)"
  by (simp_all add: len_def)

lemma prompt_abort:
  assumes "\<not> running_main m" "inPrompt m" "activeCommand m = Some c" "label c \<noteq> ''custom''"
    "keyString k = ''enter''"
    "0 \<le> promptIndex m" "promptIndex m < len (promptInputs m)"
    "\<not> promptIndex m < len (promptInputs m) - 1"
    "length (promptValues m) = length (promptInputs m)"
    "length (requiredArgs c) \<le> length (promptInputs m)"
    "n < length (requiredArgs c)"
    "TrimSpace (storedValues m ! n) = []"
    "\<forall>j<n. TrimSpace (storedValues m ! j) \<noteq> []"
  shows "Update_main L m (KeyMsg k)
     = Some (m\<lparr>promptValues := storedValues m,
               status := ''missing required argument: '' @ requiredArgs c ! n,
               inPrompt := False, activeCommand := None, currentPrompt := []\<rparr>, CmdNone)"
proof -
  have a: "nat (promptIndex m) < length (promptInputs m)"
    using assms(6,7) by (simp add: len_def)
  have 1: "idx (promptInputs m) (promptIndex m) = Some (promptInputs m ! nat (promptIndex m))"
    using assms(6) a by (simp add: idx_in)
  have 2: "promptIndex m < len (promptValues m)"
    using assms(7,9) by (simp add: len_def)
  have "promptLoop (storedValues m) 0 (requiredArgs c) (baseArgs_main c)
          = Missing (requiredArgs c ! n)"
    by (rule promptLoop_Missing) (use assms in \<open>auto simp add: storedValues_def\<close>)
  with assms(1-6,8) 1 2 show ?thesis
    unfolding storedValues_def
    by (simp add: Update_main_def handlePromptInput_def Let_def)
qed

lemma prompt_submit:
  assumes "\<not> running_main m" "inPrompt m" "activeCommand m = Some c" "label c \<noteq> ''custom''"
    "keyString k = ''enter''"
    "0 \<le> promptIndex m" "promptIndex m < len (promptInputs m)"
    "\<not> promptIndex m < len (promptInputs m) - 1"
    "length (promptValues m) = length (promptInputs m)"
    "length (promptInputs m)
       = length (requiredArgs c) + (if optionalArg c \<noteq> [] then 1 else 0)"
    "\<forall>j<length (requiredArgs c). TrimSpace (storedValues m ! j) \<noteq> []"
  shows "Update_main L m (KeyMsg k)
     = Some (m\<lparr>promptValues := storedValues m,
               lastCommand := specVector (baseArgs_main c) (requiredArgs c) (optionalArg c)
                                (storedValues m),
               inPrompt := False, activeCommand := None, currentPrompt := []\<rparr>,
             CmdRun (specVector (baseArgs_main c) (requiredArgs c) (optionalArg c)
                                (storedValues m)))"
proof -
  have a: "nat (promptIndex m) < length (promptInputs m)"
    using assms(6,7) by (simp add: len_def)
  have 1: "idx (promptInputs m) (promptIndex m) = Some (promptInputs m ! nat (promptIndex m))"
    using assms(6) a by (simp add: idx_in)
  have 2: "promptIndex m < len (promptValues m)"
    using assms(7,9) by (simp add: len_def)
  have ls: "length (storedValues m) = length (promptInputs m)"
    using assms(9) by (simp add: storedValues_def)
  have rl: "promptLoop (storedValues m) 0 (requiredArgs c) (baseArgs_main c)
     = Collected (baseArgs_main c
         @ map TrimSpace (take (length (requiredArgs c)) (storedValues m)))"
    using promptLoop_Collected [of 0 "requiredArgs c" "storedValues m" "baseArgs_main c"]
      assms(10,11) ls by simp
  have sne: "storedValues m \<noteq> []" using a ls by auto
  have pos: "0 \<le> len (promptInputs m) - 1"
    using a by (cases "promptInputs m") (auto simp add: len_def)
  have lastv: "idx (storedValues m) (len (promptInputs m) - 1) = Some (last (storedValues m))"
  proof -
    have "nat (len (promptInputs m) - 1) = length (storedValues m) - 1"
      using ls by (simp add: len_def nat_diff_distrib')
    moreover have "len (promptInputs m) - 1 < len (storedValues m)"
      using ls by (simp add: len_def)
    ultimately show ?thesis using sne pos by (simp add: idx_def last_conv_nth)
  qed
  show ?thesis
  proof (cases "optionalArg c = []")
    case True
    with assms(1-6,8) 1 2 rl sne show ?thesis
      unfolding storedValues_def
      by (simp add: Update_main_def handlePromptInput_def Let_def specVector_def
            runCommandCmd_def len_Cons_pos)
  next
    case False
    with assms(10) have "len (requiredArgs c) \<noteq> len (promptInputs m)" by (simp add: len_def)
    with False assms(1-6,8) 1 2 rl sne lastv pos show ?thesis
      unfolding storedValues_def
      by (simp add: Update_main_def handlePromptInput_def Let_def specVector_def
            runCommandCmd_def len_Cons_pos Fields_Nil)
  qed
qed


lemma prompt_advance:
  assumes "\<not> running_main m" "inPrompt m" "activeCommand m = Some c" "label c \<noteq> ''custom''"
    "keyString k = ''enter''"
    "0 \<le> promptIndex m" "promptIndex m < len (promptInputs m) - 1"
    "length (promptValues m) = length (promptInputs m)"
  shows "\<exists>m'. Update_main L m (KeyMsg k) = Some (m', CmdNone)
           \<and> promptIndex m' = promptIndex m + 1
           \<and> map Value (promptInputs m') = map Value (promptInputs m)
           \<and> promptValues m' = storedValues m
           \<and> inPrompt m' \<and> activeCommand m' = Some c \<and> \<not> running_main m'
           \<and> lastCommand m' = lastCommand m \<and> lastOutput_main m' = lastOutput_main m"
proof -
  let ?i = "promptIndex m"
  have a: "nat ?i < length (promptInputs m)" "nat (?i + 1) < length (promptInputs m)"
    using assms by (auto simp add: len_def)
  have 1: "idx (promptInputs m) ?i = Some (promptInputs m ! nat ?i)"
    using assms a by (simp add: idx_in)
  have 3: "?i < len (promptValues m)" using assms by (simp add: len_def)
  let ?in1 = "(promptInputs m)[nat ?i := Blur (promptInputs m ! nat ?i)]"
  have 2: "idx ?in1 (?i + 1) = Some (?in1 ! nat (?i + 1))"
    using assms a by (simp add: idx_in)
  have v1: "map Value ?in1 = map Value (promptInputs m)"
    using a by (simp add: map_Value_update Value_def Blur_def)
  have v2: "map Value (?in1[nat (?i + 1) := Focus (?in1 ! nat (?i + 1))]) = map Value ?in1"
    using a by (simp add: map_Value_update Value_def Focus_def)
  have "Update_main L m (KeyMsg k)
      = Some (m\<lparr>promptValues := storedValues m,
                promptInputs := ?in1[nat (?i + 1) := Focus (?in1 ! nat (?i + 1))],
                promptIndex := ?i + 1,
                currentPrompt := Placeholder (Focus (?in1 ! nat (?i + 1)))\<rparr>, CmdNone)"
    using assms(1-7) 1 2 3
    unfolding storedValues_def
    by (simp add: Update_main_def handlePromptInput_def Let_def)
  then show ?thesis using assms v1 v2 by simp
qed

lemma len3: "length xs = 3 \<Longrightarrow> \<exists>x y z. xs = [x, y, z]"
  by (simp add: numeral_3_eq_3 length_Suc_conv) blast

lemma prompt_three_enters:
  assumes "requiredArgs c = [a, b]" "optionalArg c \<noteq> []" "label c \<noteq> ''custom''"
    "\<not> running_main m" "inPrompt m" "activeCommand m = Some c" "promptIndex m = 0"
    "map Value (promptInputs m) = [''X'', ''Y'', ''--flag val'']"
    "length (promptValues m) = 3"
  shows "\<exists>m'. steps_main L m [KeyMsg KeyEnter, KeyMsg KeyEnter, KeyMsg KeyEnter]
           = Some (m', [CmdNone, CmdNone,
                CmdRun (''devtunnel'' # baseArgs_main c @ [''X'', ''Y'', ''--flag'', ''val''])])
          \<and> lastCommand m' = ''devtunnel'' # baseArgs_main c @ [''X'', ''Y'', ''--flag'', ''val'']
          \<and> \<not> inPrompt m'"
proof -
  have tr: "TrimSpace ''X'' = ''X''" "TrimSpace ''Y'' = ''Y''"
    "TrimSpace ''--flag val'' = ''--flag val''"
    by (simp_all add: TrimSpace_def isSpace_def)
  obtain x0 y0 z0 where i0: "promptInputs m = [x0, y0, z0]"
      "Value x0 = ''X''" "Value y0 = ''Y''" "Value z0 = ''--flag val''"
    using map3 [OF assms(8)] by blast
  obtain p0 p1 p2 where pv: "promptValues m = [p0, p1, p2]"
    using len3 [OF assms(9)] by blast
  have "\<exists>m'. Update_main L m (KeyMsg KeyEnter) = Some (m', CmdNone)
           \<and> promptIndex m' = promptIndex m + 1
           \<and> map Value (promptInputs m') = map Value (promptInputs m)
           \<and> promptValues m' = storedValues m
           \<and> inPrompt m' \<and> activeCommand m' = Some c \<and> \<not> running_main m'
           \<and> lastCommand m' = lastCommand m \<and> lastOutput_main m' = lastOutput_main m"
    by (rule prompt_advance) (use assms i0 pv in \<open>simp_all add: len_def\<close>)
  then obtain m1 where s1: "Update_main L m (KeyMsg KeyEnter) = Some (m1, CmdNone)"
    and r1: "promptIndex m1 = promptIndex m + 1"
      "map Value (promptInputs m1) = map Value (promptInputs m)"
      "promptValues m1 = storedValues m"
    and m1: "inPrompt m1" "activeCommand m1 = Some c" "\<not> running_main m1"
    by blast
  have q1: "promptIndex m1 = 1" "map Value (promptInputs m1) = [''X'', ''Y'', ''--flag val'']"
    using r1 assms(7,8) by simp_all
  have sv1: "promptValues m1 = [''X'', p1, p2]"
    using r1(3) assms(7) i0 pv tr by (simp add: storedValues_def)
  obtain x1 y1 z1 where i1: "promptInputs m1 = [x1, y1, z1]"
      "Value x1 = ''X''" "Value y1 = ''Y''" "Value z1 = ''--flag val''"
    using map3 [OF q1(2)] by blast
  have "\<exists>m'. Update_main L m1 (KeyMsg KeyEnter) = Some (m', CmdNone)
           \<and> promptIndex m' = promptIndex m1 + 1
           \<and> map Value (promptInputs m') = map Value (promptInputs m1)
           \<and> promptValues m' = storedValues m1
           \<and> inPrompt m' \<and> activeCommand m' = Some c \<and> \<not> running_main m'
           \<and> lastCommand m' = lastCommand m1 \<and> lastOutput_main m' = lastOutput_main m1"
    by (rule prompt_advance) (use assms(3) m1 q1 i1 sv1 in \<open>simp_all add: len_def\<close>)
  then obtain m2 where s2: "Update_main L m1 (KeyMsg KeyEnter) = Some (m2, CmdNone)"
    and r2: "promptIndex m2 = promptIndex m1 + 1"
      "map Value (promptInputs m2) = map Value (promptInputs m1)"
      "promptValues m2 = storedValues m1"
    and m2: "inPrompt m2" "activeCommand m2 = Some c" "\<not> running_main m2"
    by blast
  have q2: "promptIndex m2 = 2" "map Value (promptInputs m2) = [''X'', ''Y'', ''--flag val'']"
    using r2 q1 by simp_all
  have sv2: "promptValues m2 = [''X'', ''Y'', p2]"
    using r2(3) q1(1) i1 sv1 tr by (simp add: storedValues_def)
  obtain x2 y2 z2 where i2: "promptInputs m2 = [x2, y2, z2]"
      "Value x2 = ''X''" "Value y2 = ''Y''" "Value z2 = ''--flag val''"
    using map3 [OF q2(2)] by blast
  have sv3: "storedValues m2 = [''X'', ''Y'', ''--flag val'']"
    using q2(1) i2 sv2 tr by (simp add: storedValues_def)
  have ne: "\<forall>j<length (requiredArgs c). TrimSpace (storedValues m2 ! j) \<noteq> []"
    using assms(1) sv3 tr by (simp add: less_Suc_eq)
  have s3: "Update_main L m2 (KeyMsg KeyEnter)
     = Some (m2\<lparr>promptValues := storedValues m2,
               lastCommand := specVector (baseArgs_main c) (requiredArgs c) (optionalArg c)
                                (storedValues m2),
               inPrompt := False, activeCommand := None, currentPrompt := []\<rparr>,
             CmdRun (specVector (baseArgs_main c) (requiredArgs c) (optionalArg c)
                                (storedValues m2)))"
    using ne by (rule prompt_submit [rotated -1])
      (use m2 q2 i2 assms(1-3) sv2 in \<open>simp_all add: len_def\<close>)
  have sv: "specVector (baseArgs_main c) (requiredArgs c) (optionalArg c) (storedValues m2)
      = ''devtunnel'' # baseArgs_main c @ [''X'', ''Y'', ''--flag'', ''val'']"
    using assms(1,2) tr by (simp add: specVector_def sv3 Fields_def isSpace_def)
  show ?thesis using s1 s2 s3 sv by simp
qed

section \<open>Form submission\<close>

lemma sampleForm_facts:
  "formMode (sampleForm i vs)" "formCmd (sampleForm i vs) = Some sampleItem"
  "formIndex (sampleForm i vs) = i" "lastCmd (sampleForm i vs) = [''devtunnel'', ''list'']"
  "lastOutput (sampleForm i vs) = ''No tunnels''"
  "\<not> cmdMode (sampleForm i vs)" "\<not> filterMode (sampleForm i vs)"
  "map Value (formInputs (sampleForm i [x, y, z])) = [x, y, z]"
  "length (formInputs (sampleForm i [x, y, z])) = 3"
  by (simp_all add: sampleForm_def initialModel_def Value_def)

lemma sampleItem_facts:
  "required sampleItem = [''tunnel-id'', ''port'']" "optional sampleItem = ''flags''"
  "baseArgs sampleItem = [''port'', ''create'']"
  by (simp_all add: sampleItem_def item_def)

lemma samplePrompt_facts:
  "inPrompt (samplePrompt i vs st)" "activeCommand (samplePrompt i vs st) = Some sampleSpec"
  "promptIndex (samplePrompt i vs st) = i" "\<not> running_main (samplePrompt i vs st)"
  "lastCommand (samplePrompt i vs st) = [''devtunnel'', ''list'']"
  "lastOutput_main (samplePrompt i vs st) = ''No tunnels''"
  "promptValues (samplePrompt i vs st) = st"
  "map Value (promptInputs (samplePrompt i [x, y, z] st)) = [x, y, z]"
  "length (promptInputs (samplePrompt i [x, y, z] st)) = 3"
  by (simp_all add: samplePrompt_def initialModel_main_def Value_def)

lemma sampleSpec_facts:
  "requiredArgs sampleSpec = [''tunnel-id'', ''port'']" "optionalArg sampleSpec = ''optional args''"
  "baseArgs_main sampleSpec = [''port'', ''create'']" "label sampleSpec \<noteq> ''custom''"
  by (simp_all add: sampleSpec_def spec_def)

lemma stored_at_final:
  assumes "0 \<le> promptIndex p" "promptIndex p < len (promptInputs p)"
    "\<not> promptIndex p < len (promptInputs p) - 1"
    "length (promptValues p) = length (promptInputs p)"
    "\<forall>j<nat (promptIndex p). promptValues p ! j = TrimSpace (Value (promptInputs p ! j))"
    "j < length (promptInputs p)"
  shows "TrimSpace (storedValues p ! j) = TrimSpace (Value (promptInputs p ! j))"
proof (cases "j = nat (promptIndex p)")
  case True
  with assms(4,6) show ?thesis by (simp add: storedValues_def TrimSpace_idem)
next
  case False
  with assms(1,2,3,6) have "j < nat (promptIndex p)" by (simp add: len_def)
  with assms(5) have "promptValues p ! j = TrimSpace (Value (promptInputs p ! j))" by blast
  with False show ?thesis by (simp add: storedValues_def TrimSpace_idem)
qed

lemma prompt_abort_fields:
  assumes "\<not> running_main p" "inPrompt p" "activeCommand p = Some d" "label d \<noteq> ''custom''"
    "keyString k = ''enter''"
    "0 \<le> promptIndex p" "promptIndex p < len (promptInputs p)"
    "\<not> promptIndex p < len (promptInputs p) - 1"
    "length (promptValues p) = length (promptInputs p)"
    "\<forall>j<nat (promptIndex p). promptValues p ! j = TrimSpace (Value (promptInputs p ! j))"
    "length (requiredArgs d) \<le> length (promptInputs p)"
    "n < length (requiredArgs d)"
    "TrimSpace (Value (promptInputs p ! n)) = []"
    "\<forall>j<n. TrimSpace (Value (promptInputs p ! j)) \<noteq> []"
  shows "Update_main L p (KeyMsg k)
          = Some (p\<lparr>promptValues := storedValues p,
                    status := ''missing required argument: '' @ requiredArgs d ! n,
                    inPrompt := False, activeCommand := None, currentPrompt := []\<rparr>,
                  CmdNone)"
proof -
  have st: "TrimSpace (storedValues p ! j) = TrimSpace (Value (promptInputs p ! j))"
    if "j < length (promptInputs p)" for j
    using assms(6-10) that by (intro stored_at_final) simp_all
  have 1: "TrimSpace (storedValues p ! n) = []" using assms(11-13) st [of n] by simp
  have 2: "\<forall>j<n. TrimSpace (storedValues p ! j) \<noteq> []"
  proof (intro allI impI)
    fix j assume "j < n"
    with assms(11,12,14)
    have "j < length (promptInputs p)" "TrimSpace (Value (promptInputs p ! j)) \<noteq> []"
      by simp_all
    then show "TrimSpace (storedValues p ! j) \<noteq> []" using st [of j] by simp
  qed
  from assms(1-9,11,12) 1 2 show ?thesis
    by (intro prompt_abort) simp_all
qed

lemma rerun_key:
  assumes "\<not> formMode m" "\<not> cmdMode m" "\<not> filterMode m"
  shows "Update L m (KeyMsg (KeyRunes ''r''))
           = Some (m, if lastCmd m = [] then CmdNone else CmdRun (lastCmd m))"
  using assms by (simp add: Update_def updateNormal_def runCommandCmd_def len_def)

lemma rerun_key_main:
  assumes "\<not> running_main p" "\<not> inPrompt p"
  shows "Update_main L p (KeyMsg (KeyRunes ''r''))
           = (if lastCommand p = [] then viewportTail L p (KeyMsg (KeyRunes ''r''))
              else Some (p, CmdRun (lastCommand p)))"
  using assms by (simp add: Update_main_def runCommandCmd_def len_def)

text \<open>
  C6. For a command with required labels \<open>[a, b]\<close> and a non-empty optional label, a
  form whose three fields hold \<open>X\<close>, \<open>Y\<close> and \<open>--flag val\<close>, with the focus on the
  first field, is submitted by three enter keys: the first two move the focus and the
  third dispatches exactly the vector tool, base arguments, \<open>X\<close>, \<open>Y\<close>, \<open>--flag\<close>,
  \<open>val\<close>, which also becomes the last command. This holds in the program with
  categories and in main.go (for a command not labelled \<open>custom\<close>), whatever the
  library does with keys.
\<close>

theorem form_argument_vector:
  "(required c = [a, b] \<and> optional c \<noteq> [] \<and> formMode m \<and> formCmd m = Some c
      \<and> formIndex m = 0 \<and> map Value (formInputs m) = [''X'', ''Y'', ''--flag val'']
    \<longrightarrow> map_option snd (steps L m [KeyMsg KeyEnter, KeyMsg KeyEnter, KeyMsg KeyEnter])
          = Some [CmdNone, CmdNone,
                  CmdRun (''devtunnel'' # baseArgs c @ [''X'', ''Y'', ''--flag'', ''val''])]
        \<and> map_option (lastCmd \<circ> fst)
             (steps L m [KeyMsg KeyEnter, KeyMsg KeyEnter, KeyMsg KeyEnter])
          = Some (''devtunnel'' # baseArgs c @ [''X'', ''Y'', ''--flag'', ''val'']))
   \<and> (requiredArgs d = [a, b] \<and> optionalArg d \<noteq> [] \<and> label d \<noteq> ''custom''
      \<and> \<not> running_main p \<and> inPrompt p \<and> activeCommand p = Some d \<and> promptIndex p = 0
      \<and> map Value (promptInputs p) = [''X'', ''Y'', ''--flag val'']
      \<and> length (promptValues p) = 3
    \<longrightarrow> map_option snd (steps_main L p [KeyMsg KeyEnter, KeyMsg KeyEnter, KeyMsg KeyEnter])
          = Some [CmdNone, CmdNone,
                  CmdRun (''devtunnel'' # baseArgs_main d @ [''X'', ''Y'', ''--flag'', ''val''])]
        \<and> map_option (lastCommand \<circ> fst)
             (steps_main L p [KeyMsg KeyEnter, KeyMsg KeyEnter, KeyMsg KeyEnter])
          = Some (''devtunnel'' # baseArgs_main d @ [''X'', ''Y'', ''--flag'', ''val'']))"
proof (intro conjI impI)
  assume h: "required c = [a, b] \<and> optional c \<noteq> [] \<and> formMode m \<and> formCmd m = Some c
      \<and> formIndex m = 0 \<and> map Value (formInputs m) = [''X'', ''Y'', ''--flag val'']"
  then have "\<exists>m'. steps L m [KeyMsg KeyEnter, KeyMsg KeyEnter, KeyMsg KeyEnter]
       = Some (m', [CmdNone, CmdNone,
            CmdRun (''devtunnel'' # baseArgs c @ [''X'', ''Y'', ''--flag'', ''val''])])
     \<and> lastCmd m' = ''devtunnel'' # baseArgs c @ [''X'', ''Y'', ''--flag'', ''val'']
     \<and> \<not> formMode m'"
    by (intro form_three_enters [of c a b m L]) simp_all
  then obtain m' where
    "steps L m [KeyMsg KeyEnter, KeyMsg KeyEnter, KeyMsg KeyEnter]
       = Some (m', [CmdNone, CmdNone,
            CmdRun (''devtunnel'' # baseArgs c @ [''X'', ''Y'', ''--flag'', ''val''])])
     \<and> lastCmd m' = ''devtunnel'' # baseArgs c @ [''X'', ''Y'', ''--flag'', ''val'']
     \<and> \<not> formMode m'" ..
  then show "map_option snd (steps L m [KeyMsg KeyEnter, KeyMsg KeyEnter, KeyMsg KeyEnter])
          = Some [CmdNone, CmdNone,
                  CmdRun (''devtunnel'' # baseArgs c @ [''X'', ''Y'', ''--flag'', ''val''])]"
    and "map_option (lastCmd \<circ> fst)
             (steps L m [KeyMsg KeyEnter, KeyMsg KeyEnter, KeyMsg KeyEnter])
          = Some (''devtunnel'' # baseArgs c @ [''X'', ''Y'', ''--flag'', ''val''])"
    by simp_all
next
  assume h: "requiredArgs d = [a, b] \<and> optionalArg d \<noteq> [] \<and> label d \<noteq> ''custom''
      \<and> \<not> running_main p \<and> inPrompt p \<and> activeCommand p = Some d \<and> promptIndex p = 0
      \<and> map Value (promptInputs p) = [''X'', ''Y'', ''--flag val'']
      \<and> length (promptValues p) = 3"
  then have "\<exists>p'. steps_main L p [KeyMsg KeyEnter, KeyMsg KeyEnter, KeyMsg KeyEnter]
       = Some (p', [CmdNone, CmdNone,
            CmdRun (''devtunnel'' # baseArgs_main d @ [''X'', ''Y'', ''--flag'', ''val''])])
     \<and> lastCommand p' = ''devtunnel'' # baseArgs_main d @ [''X'', ''Y'', ''--flag'', ''val'']
     \<and> \<not> inPrompt p'"
    by (intro prompt_three_enters [of d a b p L]) simp_all
  then obtain p' where
    "steps_main L p [KeyMsg KeyEnter, KeyMsg KeyEnter, KeyMsg KeyEnter]
       = Some (p', [CmdNone, CmdNone,
            CmdRun (''devtunnel'' # baseArgs_main d @ [''X'', ''Y'', ''--flag'', ''val''])])
     \<and> lastCommand p' = ''devtunnel'' # baseArgs_main d @ [''X'', ''Y'', ''--flag'', ''val'']
     \<and> \<not> inPrompt p'" ..
  then show "map_option snd (steps_main L p [KeyMsg KeyEnter, KeyMsg KeyEnter, KeyMsg KeyEnter])
          = Some [CmdNone, CmdNone,
                  CmdRun (''devtunnel'' # baseArgs_main d @ [''X'', ''Y'', ''--flag'', ''val''])]"
    and "map_option (lastCommand \<circ> fst)
             (steps_main L p [KeyMsg KeyEnter, KeyMsg KeyEnter, KeyMsg KeyEnter])
          = Some (''devtunnel'' # baseArgs_main d @ [''X'', ''Y'', ''--flag'', ''val''])"
    by simp_all
qed

theorem form_argument_vector_witness:
  "required sampleItem = [''tunnel-id'', ''port''] \<and> optional sampleItem \<noteq> []
   \<and> formMode (sampleForm 0 [''X'', ''Y'', ''--flag val''])
   \<and> formCmd (sampleForm 0 [''X'', ''Y'', ''--flag val'']) = Some sampleItem
   \<and> formIndex (sampleForm 0 [''X'', ''Y'', ''--flag val'']) = 0
   \<and> map Value (formInputs (sampleForm 0 [''X'', ''Y'', ''--flag val'']))
       = [''X'', ''Y'', ''--flag val'']
   \<and> map_option snd (steps typingLib (sampleForm 0 [''X'', ''Y'', ''--flag val''])
                       [KeyMsg KeyEnter, KeyMsg KeyEnter, KeyMsg KeyEnter])
       = Some [CmdNone, CmdNone,
               CmdRun [''devtunnel'', ''port'', ''create'', ''X'', ''Y'', ''--flag'', ''val'']]
   \<and> requiredArgs sampleSpec = [''tunnel-id'', ''port''] \<and> optionalArg sampleSpec \<noteq> []
   \<and> label sampleSpec \<noteq> ''custom''
   \<and> \<not> running_main (samplePrompt 0 [''X'', ''Y'', ''--flag val''] [[], [], []])
   \<and> inPrompt (samplePrompt 0 [''X'', ''Y'', ''--flag val''] [[], [], []])
   \<and> activeCommand (samplePrompt 0 [''X'', ''Y'', ''--flag val''] [[], [], []]) = Some sampleSpec
   \<and> promptIndex (samplePrompt 0 [''X'', ''Y'', ''--flag val''] [[], [], []]) = 0
   \<and> map Value (promptInputs (samplePrompt 0 [''X'', ''Y'', ''--flag val''] [[], [], []]))
       = [''X'', ''Y'', ''--flag val'']
   \<and> length (promptValues (samplePrompt 0 [''X'', ''Y'', ''--flag val''] [[], [], []])) = 3
   \<and> map_option snd (steps_main typingLib (samplePrompt 0 [''X'', ''Y'', ''--flag val''] [[], [], []])
                       [KeyMsg KeyEnter, KeyMsg KeyEnter, KeyMsg KeyEnter])
       = Some [CmdNone, CmdNone,
               CmdRun [''devtunnel'', ''port'', ''create'', ''X'', ''Y'', ''--flag'', ''val'']]"
  using form_argument_vector [where c = sampleItem and a = "''tunnel-id''" and b = "''port''"
      and m = "sampleForm 0 [''X'', ''Y'', ''--flag val'']" and L = typingLib
      and d = sampleSpec and p = "samplePrompt 0 [''X'', ''Y'', ''--flag val''] [[], [], []]"]
  by (simp add: sampleForm_facts sampleItem_facts samplePrompt_facts sampleSpec_facts)

text \<open>
  C7. When enter is pressed on the final field of a form and some required field is
  empty after trimming, the update returns no command, leaves form mode (prompt mode in
  main.go) and sets the status to the missing-argument text followed by the label of the
  first required field, in declared order, whose trimmed text is empty. In main.go the
  fields before the focused one are compared through the values stored when enter was
  pressed on them.
\<close>

theorem missing_required_aborts:
  "(formMode m \<and> formCmd m = Some c \<and> keyString k = ''enter''
      \<and> \<not> formIndex m < len (formInputs m) - 1
      \<and> length (required c) \<le> length (formInputs m)
      \<and> n < length (required c)
      \<and> TrimSpace (Value (formInputs m ! n)) = []
      \<and> (\<forall>j<n. TrimSpace (Value (formInputs m ! j)) \<noteq> [])
    \<longrightarrow> Update L m (KeyMsg k)
          = Some (m\<lparr>statusErr := True,
                    statusText := ''missing required: '' @ required c ! n,
                    formMode := False, formCmd := None\<rparr>, CmdNone))
   \<and> (\<not> running_main p \<and> inPrompt p \<and> activeCommand p = Some d \<and> label d \<noteq> ''custom''
      \<and> keyString k = ''enter''
      \<and> 0 \<le> promptIndex p \<and> promptIndex p < len (promptInputs p)
      \<and> \<not> promptIndex p < len (promptInputs p) - 1
      \<and> length (promptValues p) = length (promptInputs p)
      \<and> (\<forall>j<nat (promptIndex p). promptValues p ! j = TrimSpace (Value (promptInputs p ! j)))
      \<and> length (requiredArgs d) \<le> length (promptInputs p)
      \<and> n < length (requiredArgs d)
      \<and> TrimSpace (Value (promptInputs p ! n)) = []
      \<and> (\<forall>j<n. TrimSpace (Value (promptInputs p ! j)) \<noteq> [])
    \<longrightarrow> Update_main L p (KeyMsg k)
          = Some (p\<lparr>promptValues := storedValues p,
                    status := ''missing required argument: '' @ requiredArgs d ! n,
                    inPrompt := False, activeCommand := None, currentPrompt := []\<rparr>,
                  CmdNone))"
proof (intro conjI impI)
  assume "formMode m \<and> formCmd m = Some c \<and> keyString k = ''enter''
      \<and> \<not> formIndex m < len (formInputs m) - 1
      \<and> length (required c) \<le> length (formInputs m)
      \<and> n < length (required c)
      \<and> TrimSpace (Value (formInputs m ! n)) = []
      \<and> (\<forall>j<n. TrimSpace (Value (formInputs m ! j)) \<noteq> [])"
  then show "Update L m (KeyMsg k)
          = Some (m\<lparr>statusErr := True,
                    statusText := ''missing required: '' @ required c ! n,
                    formMode := False, formCmd := None\<rparr>, CmdNone)"
    by (intro updateForm_abort) simp_all
next
  assume h: "\<not> running_main p \<and> inPrompt p \<and> activeCommand p = Some d \<and> label d \<noteq> ''custom''
      \<and> keyString k = ''enter''
      \<and> 0 \<le> promptIndex p \<and> promptIndex p < len (promptInputs p)
      \<and> \<not> promptIndex p < len (promptInputs p) - 1
      \<and> length (promptValues p) = length (promptInputs p)
      \<and> (\<forall>j<nat (promptIndex p). promptValues p ! j = TrimSpace (Value (promptInputs p ! j)))
      \<and> length (requiredArgs d) \<le> length (promptInputs p)
      \<and> n < length (requiredArgs d)
      \<and> TrimSpace (Value (promptInputs p ! n)) = []
      \<and> (\<forall>j<n. TrimSpace (Value (promptInputs p ! j)) \<noteq> [])"
  from h show "Update_main L p (KeyMsg k)
          = Some (p\<lparr>promptValues := storedValues p,
                    status := ''missing required argument: '' @ requiredArgs d ! n,
                    inPrompt := False, activeCommand := None, currentPrompt := []\<rparr>,
                  CmdNone)"
    by (intro prompt_abort_fields) simp_all
qed

theorem missing_required_aborts_witness:
  "formMode (sampleForm 2 [''t1'', ''  '', ''--flag val''])
   \<and> formCmd (sampleForm 2 [''t1'', ''  '', ''--flag val'']) = Some sampleItem
   \<and> keyString KeyEnter = ''enter''
   \<and> \<not> formIndex (sampleForm 2 [''t1'', ''  '', ''--flag val''])
         < len (formInputs (sampleForm 2 [''t1'', ''  '', ''--flag val''])) - 1
   \<and> length (required sampleItem)
        \<le> length (formInputs (sampleForm 2 [''t1'', ''  '', ''--flag val'']))
   \<and> 1 < length (required sampleItem)
   \<and> TrimSpace (Value (formInputs (sampleForm 2 [''t1'', ''  '', ''--flag val'']) ! 1)) = []
   \<and> (\<forall>j<1. TrimSpace (Value (formInputs (sampleForm 2 [''t1'', ''  '', ''--flag val'']) ! j))
              \<noteq> [])
   \<and> map_option snd (Update typingLib (sampleForm 2 [''t1'', ''  '', ''--flag val''])
                        (KeyMsg KeyEnter)) = Some CmdNone
   \<and> map_option (statusText \<circ> fst)
        (Update typingLib (sampleForm 2 [''t1'', ''  '', ''--flag val'']) (KeyMsg KeyEnter))
       = Some ''missing required: port''
   \<and> map_option (formMode \<circ> fst)
        (Update typingLib (sampleForm 2 [''t1'', ''  '', ''--flag val'']) (KeyMsg KeyEnter))
       = Some False
   \<and> \<not> running_main (samplePrompt 2 [''t1'', '' '', ''-v''] [''t1'', [], []])
   \<and> inPrompt (samplePrompt 2 [''t1'', '' '', ''-v''] [''t1'', [], []])
   \<and> activeCommand (samplePrompt 2 [''t1'', '' '', ''-v''] [''t1'', [], []]) = Some sampleSpec
   \<and> label sampleSpec \<noteq> ''custom''
   \<and> (\<forall>j<nat (promptIndex (samplePrompt 2 [''t1'', '' '', ''-v''] [''t1'', [], []])).
          promptValues (samplePrompt 2 [''t1'', '' '', ''-v''] [''t1'', [], []]) ! j
          = TrimSpace (Value (promptInputs
               (samplePrompt 2 [''t1'', '' '', ''-v''] [''t1'', [], []]) ! j)))
   \<and> TrimSpace (Value (promptInputs
          (samplePrompt 2 [''t1'', '' '', ''-v''] [''t1'', [], []]) ! 1)) = []
   \<and> map_option snd (Update_main typingLib (samplePrompt 2 [''t1'', '' '', ''-v''] [''t1'', [], []])
                        (KeyMsg KeyEnter)) = Some CmdNone
   \<and> map_option (status \<circ> fst)
        (Update_main typingLib (samplePrompt 2 [''t1'', '' '', ''-v''] [''t1'', [], []])
           (KeyMsg KeyEnter))
       = Some ''missing required argument: port''
   \<and> map_option (inPrompt \<circ> fst)
        (Update_main typingLib (samplePrompt 2 [''t1'', '' '', ''-v''] [''t1'', [], []])
           (KeyMsg KeyEnter))
       = Some False"
proof -
  let ?m = "sampleForm 2 [''t1'', ''  '', ''--flag val'']"
  let ?p = "samplePrompt 2 [''t1'', '' '', ''-v''] [''t1'', [], []]"
  have tr: "TrimSpace ''t1'' = ''t1''" "TrimSpace ''  '' = []" "TrimSpace '' '' = []"
    by (simp_all add: TrimSpace_def isSpace_def)
  have fi: "Value (formInputs ?m ! 0) = ''t1''" "Value (formInputs ?m ! 1) = ''  ''"
    "Value (formInputs ?m ! Suc 0) = ''  ''"
    by (simp_all add: sampleForm_def Value_def)
  have pi: "Value (promptInputs ?p ! 0) = ''t1''" "Value (promptInputs ?p ! 1) = '' ''"
    "Value (promptInputs ?p ! Suc 0) = '' ''"
    by (simp_all add: samplePrompt_def Value_def)
  have hA: "formMode ?m \<and> formCmd ?m = Some sampleItem \<and> keyString KeyEnter = ''enter''
      \<and> \<not> formIndex ?m < len (formInputs ?m) - 1
      \<and> length (required sampleItem) \<le> length (formInputs ?m)
      \<and> 1 < length (required sampleItem)
      \<and> TrimSpace (Value (formInputs ?m ! 1)) = []
      \<and> (\<forall>j<1. TrimSpace (Value (formInputs ?m ! j)) \<noteq> [])"
    by (simp add: sampleForm_facts sampleItem_facts len_def fi tr)
  have hB: "\<not> running_main ?p \<and> inPrompt ?p \<and> activeCommand ?p = Some sampleSpec
      \<and> label sampleSpec \<noteq> ''custom'' \<and> keyString KeyEnter = ''enter''
      \<and> 0 \<le> promptIndex ?p \<and> promptIndex ?p < len (promptInputs ?p)
      \<and> \<not> promptIndex ?p < len (promptInputs ?p) - 1
      \<and> length (promptValues ?p) = length (promptInputs ?p)
      \<and> (\<forall>j<nat (promptIndex ?p). promptValues ?p ! j = TrimSpace (Value (promptInputs ?p ! j)))
      \<and> length (requiredArgs sampleSpec) \<le> length (promptInputs ?p)
      \<and> 1 < length (requiredArgs sampleSpec)
      \<and> TrimSpace (Value (promptInputs ?p ! 1)) = []
      \<and> (\<forall>j<1. TrimSpace (Value (promptInputs ?p ! j)) \<noteq> [])"
    by (simp add: samplePrompt_facts sampleSpec_facts len_def pi tr numeral_2_eq_2 less_Suc_eq)
  note w = missing_required_aborts [where m = ?m and c = sampleItem and k = KeyEnter and n = 1
      and L = typingLib and p = ?p and d = sampleSpec]
  from w hA have rA: "Update typingLib ?m (KeyMsg KeyEnter)
      = Some (?m\<lparr>statusErr := True,
                statusText := ''missing required: '' @ required sampleItem ! 1,
                formMode := False, formCmd := None\<rparr>, CmdNone)"
    by blast
  from w hB have rB: "Update_main typingLib ?p (KeyMsg KeyEnter)
      = Some (?p\<lparr>promptValues := storedValues ?p,
                status := ''missing required argument: '' @ requiredArgs sampleSpec ! 1,
                inPrompt := False, activeCommand := None, currentPrompt := []\<rparr>, CmdNone)"
    by blast
  show ?thesis
    using hA hB by (simp add: rA rB sampleItem_facts sampleSpec_facts)
qed

text \<open>
  C10. When a form submission aborts because a required field is empty, the stored last
  command and last output are what they were before; the rerun key pressed next
  dispatches that previous vector when there is one, and dispatches nothing otherwise.
\<close>

theorem abort_keeps_last_command:
  "(formMode m \<and> formCmd m = Some c \<and> keyString k = ''enter''
      \<and> \<not> formIndex m < len (formInputs m) - 1
      \<and> length (required c) \<le> length (formInputs m)
      \<and> n < length (required c)
      \<and> TrimSpace (Value (formInputs m ! n)) = []
      \<and> (\<forall>j<n. TrimSpace (Value (formInputs m ! j)) \<noteq> [])
    \<longrightarrow> map_option (lastCmd \<circ> fst) (Update L m (KeyMsg k)) = Some (lastCmd m)
        \<and> map_option (lastOutput \<circ> fst) (Update L m (KeyMsg k)) = Some (lastOutput m)
        \<and> (\<not> cmdMode m \<and> \<not> filterMode m \<longrightarrow>
             map_option snd (steps L m [KeyMsg k, KeyMsg (KeyRunes ''r'')])
               = Some [CmdNone, if lastCmd m = [] then CmdNone else CmdRun (lastCmd m)]))
   \<and> (\<not> running_main p \<and> inPrompt p \<and> activeCommand p = Some d \<and> label d \<noteq> ''custom''
      \<and> keyString k = ''enter''
      \<and> 0 \<le> promptIndex p \<and> promptIndex p < len (promptInputs p)
      \<and> \<not> promptIndex p < len (promptInputs p) - 1
      \<and> length (promptValues p) = length (promptInputs p)
      \<and> (\<forall>j<nat (promptIndex p). promptValues p ! j = TrimSpace (Value (promptInputs p ! j)))
      \<and> length (requiredArgs d) \<le> length (promptInputs p)
      \<and> n < length (requiredArgs d)
      \<and> TrimSpace (Value (promptInputs p ! n)) = []
      \<and> (\<forall>j<n. TrimSpace (Value (promptInputs p ! j)) \<noteq> [])
    \<longrightarrow> map_option (lastCommand \<circ> fst) (Update_main L p (KeyMsg k)) = Some (lastCommand p)
        \<and> map_option (lastOutput_main \<circ> fst) (Update_main L p (KeyMsg k))
            = Some (lastOutput_main p)
        \<and> map_option snd (steps_main L p [KeyMsg k, KeyMsg (KeyRunes ''r'')])
            = Some [CmdNone, if lastCommand p = [] then CmdViewport
                             else CmdRun (lastCommand p)])"
proof (intro conjI impI)
  assume h: "formMode m \<and> formCmd m = Some c \<and> keyString k = ''enter''
      \<and> \<not> formIndex m < len (formInputs m) - 1
      \<and> length (required c) \<le> length (formInputs m)
      \<and> n < length (required c)
      \<and> TrimSpace (Value (formInputs m ! n)) = []
      \<and> (\<forall>j<n. TrimSpace (Value (formInputs m ! j)) \<noteq> [])"
  then have u: "Update L m (KeyMsg k)
          = Some (m\<lparr>statusErr := True,
                    statusText := ''missing required: '' @ required c ! n,
                    formMode := False, formCmd := None\<rparr>, CmdNone)"
    by (intro updateForm_abort) simp_all
  show "map_option (lastCmd \<circ> fst) (Update L m (KeyMsg k)) = Some (lastCmd m)"
    by (simp add: u)
  show "map_option (lastOutput \<circ> fst) (Update L m (KeyMsg k)) = Some (lastOutput m)"
    by (simp add: u)
  assume "\<not> cmdMode m \<and> \<not> filterMode m"
  then show "map_option snd (steps L m [KeyMsg k, KeyMsg (KeyRunes ''r'')])
               = Some [CmdNone, if lastCmd m = [] then CmdNone else CmdRun (lastCmd m)]"
    by (simp add: u rerun_key)
next
  assume h: "\<not> running_main p \<and> inPrompt p \<and> activeCommand p = Some d \<and> label d \<noteq> ''custom''
      \<and> keyString k = ''enter''
      \<and> 0 \<le> promptIndex p \<and> promptIndex p < len (promptInputs p)
      \<and> \<not> promptIndex p < len (promptInputs p) - 1
      \<and> length (promptValues p) = length (promptInputs p)
      \<and> (\<forall>j<nat (promptIndex p). promptValues p ! j = TrimSpace (Value (promptInputs p ! j)))
      \<and> length (requiredArgs d) \<le> length (promptInputs p)
      \<and> n < length (requiredArgs d)
      \<and> TrimSpace (Value (promptInputs p ! n)) = []
      \<and> (\<forall>j<n. TrimSpace (Value (promptInputs p ! j)) \<noteq> [])"
  then have u: "Update_main L p (KeyMsg k)
          = Some (p\<lparr>promptValues := storedValues p,
                    status := ''missing required argument: '' @ requiredArgs d ! n,
                    inPrompt := False, activeCommand := None, currentPrompt := []\<rparr>,
                  CmdNone)"
    by (intro prompt_abort_fields) simp_all
  show "map_option (lastCommand \<circ> fst) (Update_main L p (KeyMsg k)) = Some (lastCommand p)"
    by (simp add: u)
  show "map_option (lastOutput_main \<circ> fst) (Update_main L p (KeyMsg k))
            = Some (lastOutput_main p)"
    by (simp add: u)
  from h show "map_option snd (steps_main L p [KeyMsg k, KeyMsg (KeyRunes ''r'')])
            = Some [CmdNone, if lastCommand p = [] then CmdViewport
                             else CmdRun (lastCommand p)]"
    by (simp add: u rerun_key_main viewportTail_def)
qed

theorem abort_keeps_last_command_witness:
  "formMode (sampleForm 2 [''t1'', ''  '', ''--flag val''])
   \<and> TrimSpace (Value (formInputs (sampleForm 2 [''t1'', ''  '', ''--flag val'']) ! 1)) = []
   \<and> lastCmd (sampleForm 2 [''t1'', ''  '', ''--flag val'']) = [''devtunnel'', ''list'']
   \<and> map_option (lastCmd \<circ> fst)
        (Update typingLib (sampleForm 2 [''t1'', ''  '', ''--flag val'']) (KeyMsg KeyEnter))
       = Some [''devtunnel'', ''list'']
   \<and> map_option (lastOutput \<circ> fst)
        (Update typingLib (sampleForm 2 [''t1'', ''  '', ''--flag val'']) (KeyMsg KeyEnter))
       = Some ''No tunnels''
   \<and> map_option snd (steps typingLib (sampleForm 2 [''t1'', ''  '', ''--flag val''])
                        [KeyMsg KeyEnter, KeyMsg (KeyRunes ''r'')])
       = Some [CmdNone, CmdRun [''devtunnel'', ''list'']]
   \<and> inPrompt (samplePrompt 2 [''t1'', '' '', ''-v''] [''t1'', [], []])
   \<and> TrimSpace (Value (promptInputs
          (samplePrompt 2 [''t1'', '' '', ''-v''] [''t1'', [], []]) ! 1)) = []
   \<and> map_option (lastCommand \<circ> fst)
        (Update_main typingLib (samplePrompt 2 [''t1'', '' '', ''-v''] [''t1'', [], []])
           (KeyMsg KeyEnter))
       = Some [''devtunnel'', ''list'']
   \<and> map_option (lastOutput_main \<circ> fst)
        (Update_main typingLib (samplePrompt 2 [''t1'', '' '', ''-v''] [''t1'', [], []])
           (KeyMsg KeyEnter))
       = Some ''No tunnels''
   \<and> map_option snd (steps_main typingLib (samplePrompt 2 [''t1'', '' '', ''-v''] [''t1'', [], []])
                        [KeyMsg KeyEnter, KeyMsg (KeyRunes ''r'')])
       = Some [CmdNone, CmdRun [''devtunnel'', ''list'']]"
proof -
  let ?m = "sampleForm 2 [''t1'', ''  '', ''--flag val'']"
  let ?p = "samplePrompt 2 [''t1'', '' '', ''-v''] [''t1'', [], []]"
  have tr: "TrimSpace ''t1'' = ''t1''" "TrimSpace ''  '' = []" "TrimSpace '' '' = []"
    by (simp_all add: TrimSpace_def isSpace_def)
  have fi: "Value (formInputs ?m ! 0) = ''t1''" "Value (formInputs ?m ! 1) = ''  ''"
    "Value (formInputs ?m ! Suc 0) = ''  ''"
    by (simp_all add: sampleForm_def Value_def)
  have pi: "Value (promptInputs ?p ! 0) = ''t1''" "Value (promptInputs ?p ! 1) = '' ''"
    "Value (promptInputs ?p ! Suc 0) = '' ''"
    by (simp_all add: samplePrompt_def Value_def)
  have hA: "formMode ?m \<and> formCmd ?m = Some sampleItem \<and> keyString KeyEnter = ''enter''
      \<and> \<not> formIndex ?m < len (formInputs ?m) - 1
      \<and> length (required sampleItem) \<le> length (formInputs ?m)
      \<and> 1 < length (required sampleItem)
      \<and> TrimSpace (Value (formInputs ?m ! 1)) = []
      \<and> (\<forall>j<1. TrimSpace (Value (formInputs ?m ! j)) \<noteq> [])"
    by (simp add: sampleForm_facts sampleItem_facts len_def fi tr)
  have hA2: "\<not> cmdMode ?m \<and> \<not> filterMode ?m" by (simp add: sampleForm_facts)
  have hB: "\<not> running_main ?p \<and> inPrompt ?p \<and> activeCommand ?p = Some sampleSpec
      \<and> label sampleSpec \<noteq> ''custom'' \<and> keyString KeyEnter = ''enter''
      \<and> 0 \<le> promptIndex ?p \<and> promptIndex ?p < len (promptInputs ?p)
      \<and> \<not> promptIndex ?p < len (promptInputs ?p) - 1
      \<and> length (promptValues ?p) = length (promptInputs ?p)
      \<and> (\<forall>j<nat (promptIndex ?p). promptValues ?p ! j = TrimSpace (Value (promptInputs ?p ! j)))
      \<and> length (requiredArgs sampleSpec) \<le> length (promptInputs ?p)
      \<and> 1 < length (requiredArgs sampleSpec)
      \<and> TrimSpace (Value (promptInputs ?p ! 1)) = []
      \<and> (\<forall>j<1. TrimSpace (Value (promptInputs ?p ! j)) \<noteq> [])"
    by (simp add: samplePrompt_facts sampleSpec_facts len_def pi tr numeral_2_eq_2 less_Suc_eq)
  note w = abort_keeps_last_command [where m = ?m and c = sampleItem and k = KeyEnter
      and n = 1 and L = typingLib and p = ?p and d = sampleSpec]
  from w hA hA2 have rA:
    "map_option (lastCmd \<circ> fst) (Update typingLib ?m (KeyMsg KeyEnter)) = Some (lastCmd ?m)"
    "map_option (lastOutput \<circ> fst) (Update typingLib ?m (KeyMsg KeyEnter))
       = Some (lastOutput ?m)"
    "map_option snd (steps typingLib ?m [KeyMsg KeyEnter, KeyMsg (KeyRunes ''r'')])
       = Some [CmdNone, if lastCmd ?m = [] then CmdNone else CmdRun (lastCmd ?m)]"
    by blast+
  from w hB have rB:
    "map_option (lastCommand \<circ> fst) (Update_main typingLib ?p (KeyMsg KeyEnter))
       = Some (lastCommand ?p)"
    "map_option (lastOutput_main \<circ> fst) (Update_main typingLib ?p (KeyMsg KeyEnter))
       = Some (lastOutput_main ?p)"
    "map_option snd (steps_main typingLib ?p [KeyMsg KeyEnter, KeyMsg (KeyRunes ''r'')])
       = Some [CmdNone, if lastCommand ?p = [] then CmdViewport else CmdRun (lastCommand ?p)]"
    by blast+
  show ?thesis
    using hA hB
    by (simp only: rA rB) (simp add: sampleForm_facts samplePrompt_facts)
qed

end
